theory Spec2Isabelle
  imports Complex_Main
begin

section \<open>Values, errors and tensors\<close>

text \<open>
  The embedding of \<^verbatim>\<open>dog_identify.py\<close>. Python floats and tensor elements are
  modelled as real numbers: rounding, infinities and NaN are outside the model. A Python
  exception is the \<open>Inl\<close> branch of a result.
\<close>

datatype py_error = ValueError | ZeroDivisionError | StopIteration | RuntimeError | IndexError

type_synonym 'a result = "py_error + 'a"

datatype device = CPU | CUDA

text \<open>
  A tensor is the list of its elements (a one-dimensional view). A parameter carries its
  values, its \<^verbatim>\<open>requires_grad\<close> flag and its device; a module is the list that
  \<^verbatim>\<open>parameters()\<close> yields, in order, and the train/eval mode flag.
\<close>

type_synonym tensor = "real list"

record param =
  data :: tensor
  requires_grad :: bool
  pdevice :: device

record nn_module =
  params :: "param list"
  training :: bool

text \<open>
  An in-place binary tensor operation takes a source with as many elements as the
  destination, or a single element (broadcast); anything else is torch's RuntimeError.
\<close>

definition broadcast :: "tensor \<Rightarrow> nat \<Rightarrow> tensor result" where
  "broadcast src k =
     (if length src = k then Inr src
      else if length src = 1 then Inr (replicate k (hd src))
      else Inl RuntimeError)"

text \<open>\<^verbatim>\<open>dst.copy_(src)\<close>: the values of \<open>src\<close>, the flags and device of \<open>dst\<close>.\<close>

definition copy_tensor :: "param \<Rightarrow> param \<Rightarrow> param result" where
  "copy_tensor dst src =
     (case broadcast (data src) (length (data dst)) of
        Inl e \<Rightarrow> Inl e
      | Inr v \<Rightarrow> Inr (dst\<lparr>data := v\<rparr>))"

text \<open>
  \<^verbatim>\<open>for ema_p, model_p in zip(self.ema.parameters(), model.parameters()): body\<close>.
  \<^verbatim>\<open>zip\<close> stops at the shorter list: shadow parameters beyond it are left as they are.
\<close>

fun for_zip :: "(param \<Rightarrow> param \<Rightarrow> param result) \<Rightarrow> param list \<Rightarrow> param list \<Rightarrow> param list result" where
  "for_zip body (e # es) (m # ms) =
     (case body e m of
        Inl err \<Rightarrow> Inl err
      | Inr e' \<Rightarrow> (case for_zip body es ms of Inl err \<Rightarrow> Inl err | Inr es' \<Rightarrow> Inr (e' # es')))"
| "for_zip body es ms = Inr es"

definition deepcopy :: "nn_module \<Rightarrow> nn_module" where
  "deepcopy model = model"

definition state_dict :: "nn_module \<Rightarrow> tensor list" where
  "state_dict model = map data (params model)"

definition shapes :: "nn_module \<Rightarrow> nat list" where
  "shapes model = map (\<lambda>p. length (data p)) (params model)"

section \<open>ModelEMA\<close>

record ModelEMA =
  ema :: nn_module
  initial_decay :: real
  min_decay :: real
  total_epochs :: int

text \<open>\<^verbatim>\<open>ModelEMA.__init__(self, model, decay=0.999, total_epochs=50)\<close>, lines 44-55.\<close>

definition ModelEMA_init :: "nn_module \<Rightarrow> real \<Rightarrow> int \<Rightarrow> ModelEMA result" where
  "ModelEMA_init model decay epochs =
     (let ema0 = (deepcopy model)\<lparr>training := False\<rparr>;
          ema1 = ema0\<lparr>params := map (\<lambda>p. p\<lparr>requires_grad := False\<rparr>) (params ema0)\<rparr>
      in case for_zip copy_tensor (params ema1) (params model) of
           Inl e \<Rightarrow> Inl e
         | Inr ps \<Rightarrow>
             Inr \<lparr>ema = ema1\<lparr>params := ps\<rparr>, initial_decay = decay,
                  min_decay = 0.995, total_epochs = epochs\<rparr>)"

text \<open>
  Lines 59-60 of \<^verbatim>\<open>update\<close>: the decay for the current epoch. \<^verbatim>\<open>/\<close> is Python's true
  division, which raises on a zero divisor.
\<close>

definition current_decay :: "ModelEMA \<Rightarrow> int \<Rightarrow> real result" where
  "current_decay self current_epoch =
     (if total_epochs self = 0 then Inl ZeroDivisionError
      else
        let decay = initial_decay self - (initial_decay self - min_decay self)
                      * (real_of_int current_epoch / real_of_int (total_epochs self))
        in Inr (max decay (min_decay self)))"

text \<open>
  Lines 64-67, the body of the loop of \<^verbatim>\<open>update\<close>:
  \<^verbatim>\<open>ema_param_fp32.mul_(decay).add_(model_param_fp32, alpha=1 - decay)\<close> and the copy back.
\<close>

definition ema_step :: "real \<Rightarrow> param \<Rightarrow> param \<Rightarrow> param result" where
  "ema_step decay ema_param model_param =
     (let model_param_fp32 = data model_param;
          ema_param_fp32 = map (\<lambda>x. x * decay) (data ema_param)
      in case broadcast model_param_fp32 (length ema_param_fp32) of
           Inl e \<Rightarrow> Inl e
         | Inr other \<Rightarrow>
             Inr (ema_param\<lparr>data := map2 (\<lambda>x y. x + (1 - decay) * y) ema_param_fp32 other\<rparr>))"

text \<open>
  \<^verbatim>\<open>ModelEMA.update(self, model, current_epoch)\<close>, lines 57-67. The state is the tracker
  and the live model; both are returned.
\<close>

definition update :: "ModelEMA \<Rightarrow> nn_module \<Rightarrow> int \<Rightarrow> (ModelEMA \<times> nn_module) result" where
  "update self model current_epoch =
     (case current_decay self current_epoch of
        Inl e \<Rightarrow> Inl e
      | Inr decay \<Rightarrow>
          (case for_zip (ema_step decay) (params (ema self)) (params model) of
             Inl e \<Rightarrow> Inl e
           | Inr ps \<Rightarrow> Inr (self\<lparr>ema := (ema self)\<lparr>params := ps\<rparr>\<rparr>, model)))"

section \<open>Collaborators\<close>

text \<open>
  The network's forward pass, the loss, the backward pass, the optimizer with its gradient
  scaler, and the two schedulers are library code. They are parameters of the model: a
  record of functions over an opaque state \<open>'w\<close> (gradients, optimizer moments, the
  scaler's scale, the schedulers' counters). What the source itself reads and writes is
  explicit: the parameters of the network, and the learning rate and \<^verbatim>\<open>initial_lr\<close> of
  each parameter group. The optimizer step gives every element of every parameter a new
  value, in place; a scheduler step gives every group a new learning rate. The library
  refuses a Python integer that does not fit its scalar type as an operand of a tensor:
  \<open>scalar_ok\<close> says which integers it takes.
\<close>

record group =
  lr :: real
  weight_decay :: real
  initial_lr :: "real option"

record ('x, 'w) torch =
  forward :: "'w \<Rightarrow> nn_module \<Rightarrow> 'x \<Rightarrow> real list list"
  loss_fn :: "real list list \<Rightarrow> nat list \<Rightarrow> real"
  backward :: "'w \<Rightarrow> nn_module \<Rightarrow> 'x \<Rightarrow> nat list \<Rightarrow> real \<Rightarrow> 'w"
  step_value :: "'w \<Rightarrow> group list \<Rightarrow> nn_module \<Rightarrow> nat \<Rightarrow> nat \<Rightarrow> real"
  step_next :: "'w \<Rightarrow> group list \<Rightarrow> nn_module \<Rightarrow> 'w"
  cosine_lr :: "'w \<Rightarrow> nat \<Rightarrow> group list \<Rightarrow> nat \<Rightarrow> real"
  cosine_next :: "'w \<Rightarrow> nat \<Rightarrow> group list \<Rightarrow> 'w"
  plateau_lr :: "'w \<Rightarrow> real list option \<Rightarrow> real \<Rightarrow> group list \<Rightarrow> nat \<Rightarrow> real"
  plateau_next :: "'w \<Rightarrow> real list option \<Rightarrow> real \<Rightarrow> group list \<Rightarrow> 'w"
  scalar_ok :: "int \<Rightarrow> bool"

type_synonym 'x batch = "'x \<times> nat list"

text \<open>
  A network can be trained when one of its parameters requires a gradient: on any other
  network the loss has no gradient function, and \<^verbatim>\<open>backward()\<close> raises RuntimeError.
\<close>

definition trainable :: "nn_module \<Rightarrow> bool" where
  "trainable model = list_ex requires_grad (params model)"

text \<open>\<^verbatim>\<open>output.argmax(dim=1)\<close>: for each row, the index of its first maximal element.\<close>

fun argmax_from :: "nat \<Rightarrow> real \<Rightarrow> nat \<Rightarrow> real list \<Rightarrow> nat" where
  "argmax_from best v i [] = best"
| "argmax_from best v i (x # xs) =
     (if v < x then argmax_from i x (Suc i) xs else argmax_from best v (Suc i) xs)"

definition argmax :: "real list \<Rightarrow> nat" where
  "argmax row = (case row of [] \<Rightarrow> 0 | x # xs \<Rightarrow> argmax_from 0 x 1 xs)"

text \<open>\<^verbatim>\<open>(output.argmax(dim=1) == y).sum().item()\<close>: the number of rows predicted right.\<close>

definition num_correct :: "real list list \<Rightarrow> nat list \<Rightarrow> nat" where
  "num_correct output y = length (filter (\<lambda>(row, label). argmax row = label) (zip output y))"

section \<open>evaluate\_accuracy\<close>

text \<open>Lines 172-181: the accumulation loop over the stream.\<close>

fun eval_loop :: "('x, 'w) torch \<Rightarrow> 'w \<Rightarrow> nn_module \<Rightarrow> 'x batch list
    \<Rightarrow> real \<times> real \<times> nat \<Rightarrow> real \<times> real \<times> nat" where
  "eval_loop T w model [] acc = acc"
| "eval_loop T w model ((X, y) # rest) (acc_sum, loss_sum, n) =
     (let output = forward T w model X;
          loss = loss_fn T output y
      in eval_loop T w model rest
           (acc_sum + real (num_correct output y), loss_sum + loss * real (length y), n + length y))"

text \<open>
  \<^verbatim>\<open>evaluate_accuracy(data_iter, net, loss_fn, device=None, use_ema=False, ema_model=None)\<close>,
  lines 153-182. \<^verbatim>\<open>next(net.parameters())\<close> raises StopIteration on a network without
  parameters; the final divisions raise ZeroDivisionError when no sample was seen.
\<close>

definition evaluate_accuracy :: "('x, 'w) torch \<Rightarrow> 'w \<Rightarrow> 'x batch list \<Rightarrow> nn_module
    \<Rightarrow> device option \<Rightarrow> bool \<Rightarrow> ModelEMA option \<Rightarrow> (real \<times> real) result" where
  "evaluate_accuracy T w data_iter net dev use_ema ema_model =
     (case (case dev of
              None \<Rightarrow> (case params net of [] \<Rightarrow> Inl StopIteration | p # ps \<Rightarrow> Inr (pdevice p))
            | Some d \<Rightarrow> Inr d) of
        Inl e \<Rightarrow> Inl e
      | Inr d \<Rightarrow>
          (case (if use_ema
                 then (case ema_model of None \<Rightarrow> Inl ValueError | Some tracker \<Rightarrow> Inr (ema tracker))
                 else Inr net) of
             Inl e \<Rightarrow> Inl e
           | Inr model \<Rightarrow>
               (case eval_loop T w (model\<lparr>training := False\<rparr>) data_iter (0, 0, 0) of
                  (acc_sum, loss_sum, n) \<Rightarrow>
                    if n = 0 then Inl ZeroDivisionError
                    else Inr (acc_sum / real n, loss_sum / real n))))"

section \<open>train\<close>

text \<open>
  What the run does that can be observed from outside is recorded as a list of events:
  an execution of the optimizer-step block (epoch, batch index), the progress line of
  a batch (epoch, batch index, loss, batch accuracy), a step of either scheduler,
  a scalar sent to the TensorBoard writer, a checkpoint written, the early stop.
\<close>

datatype event =
    OptStep nat nat
  | Progress nat nat real real
  | CosineStep nat
  | PlateauStep nat real
  | AddScalar string real nat
  | SaveLive nat
  | SaveEMA nat
  | EarlyStop nat

text \<open>
  The local variables of \<^verbatim>\<open>train\<close> and the global objects it mutates: the network,
  the tracker, the collaborators' opaque state, \<^verbatim>\<open>optimizer.param_groups\<close>, the
  \<^verbatim>\<open>base_lrs\<close> attribute of the plateau scheduler, the two checkpoint files.
\<close>

record 'w tstate =
  t_net :: nn_module
  t_ema :: ModelEMA
  t_world :: 'w
  t_groups :: "group list"
  t_base_lrs :: "real list option"
  t_best_acc :: real
  t_best_metric :: real
  t_no_improve :: nat
  t_current_scheduler :: string
  t_train_l_sum :: real
  t_train_acc_sum :: real
  t_n :: nat
  t_best_model :: "tensor list option"
  t_best_model_ema :: "tensor list option"
  t_events :: "event list"

definition patience :: nat where
  "patience = 12"

text \<open>\<^verbatim>\<open>scaler.unscale_\<close>, \<^verbatim>\<open>clip_grad_norm_\<close> and \<^verbatim>\<open>scaler.step(optimizer)\<close> on the network.\<close>

definition optimizer_step :: "('x, 'w) torch \<Rightarrow> 'w \<Rightarrow> group list \<Rightarrow> nn_module \<Rightarrow> nn_module" where
  "optimizer_step T w gs model =
     model\<lparr>params :=
       map (\<lambda>(i, p). p\<lparr>data := map (step_value T w gs model i) [0..<length (data p)]\<rparr>)
         (enumerate 0 (params model))\<rparr>"

text \<open>Lines 223-228, the optimizer-step block.\<close>

definition step_block :: "('x, 'w) torch \<Rightarrow> nat \<Rightarrow> nat \<Rightarrow> 'w tstate \<Rightarrow> 'w tstate result" where
  "step_block T epoch batch_idx st =
     (let stepped = optimizer_step T (t_world st) (t_groups st) (t_net st);
          w = step_next T (t_world st) (t_groups st) (t_net st)
      in case update (t_ema st) stepped (int epoch) of
           Inl e \<Rightarrow> Inl e
         | Inr (tracker, model) \<Rightarrow>
             Inr (st\<lparr>t_net := model, t_ema := tracker, t_world := w,
                     t_events := t_events st @ [OptStep epoch batch_idx]\<rparr>))"

text \<open>
  Lines 210-256, one iteration of the batch loop. The division of the loss by
  \<^verbatim>\<open>accum_steps\<close> (line 216) raises RuntimeError on an integer the library does not take
  as a scalar; \<^verbatim>\<open>scaler.scale(l).backward()\<close> (line 219) raises RuntimeError when no
  parameter of the network requires a gradient; \<^verbatim>\<open>%\<close> raises on \<^verbatim>\<open>accum_steps == 0\<close>
  (line 222) and \<^verbatim>\<open>/ y.size(0)\<close> raises on a batch without samples (line 231).
\<close>

definition train_batch :: "('x, 'w) torch \<Rightarrow> int \<Rightarrow> nat \<Rightarrow> nat \<Rightarrow> 'w tstate
    \<Rightarrow> nat \<times> 'x batch \<Rightarrow> 'w tstate result" where
  "train_batch T accum_steps total_batches epoch st ib =
     (case ib of (batch_idx, X, y) \<Rightarrow>
        let y_hat = forward T (t_world st) (t_net st) X;
            l = loss_fn T y_hat y / real_of_int accum_steps;
            unscaled_loss = l * real_of_int accum_steps;
            st1 = st\<lparr>t_world := backward T (t_world st) (t_net st) X y l\<rparr>
        in if \<not> scalar_ok T accum_steps then Inl RuntimeError
           else if \<not> trainable (t_net st) then Inl RuntimeError
           else if accum_steps = 0 then Inl ZeroDivisionError
           else
             (case (if (int batch_idx + 1) mod accum_steps = 0 \<or> batch_idx + 1 = total_batches
                    then step_block T epoch batch_idx st1 else Inr st1) of
                Inl e \<Rightarrow> Inl e
              | Inr st2 \<Rightarrow>
                  if length y = 0 then Inl ZeroDivisionError
                  else
                    let batch_acc = real (num_correct y_hat y) / real (length y)
                    in Inr (st2\<lparr>t_train_l_sum := t_train_l_sum st2 + unscaled_loss * real (length y),
                                t_train_acc_sum := t_train_acc_sum st2 + real (num_correct y_hat y),
                                t_n := t_n st2 + length y,
                                t_events := t_events st2 @ [Progress epoch batch_idx unscaled_loss batch_acc]\<rparr>)))"

fun run_batches :: "('x, 'w) torch \<Rightarrow> int \<Rightarrow> nat \<Rightarrow> nat \<Rightarrow> 'w tstate
    \<Rightarrow> (nat \<times> 'x batch) list \<Rightarrow> 'w tstate result" where
  "run_batches T accum_steps total_batches epoch st [] = Inr st"
| "run_batches T accum_steps total_batches epoch st (ib # rest) =
     (case train_batch T accum_steps total_batches epoch st ib of
        Inl e \<Rightarrow> Inl e
      | Inr st' \<Rightarrow> run_batches T accum_steps total_batches epoch st' rest)"

text \<open>Lines 200-256: \<^verbatim>\<open>net.train()\<close>, the counters reset, the loop over \<^verbatim>\<open>enumerate(train_iter)\<close>.\<close>

definition epoch_batches :: "('x, 'w) torch \<Rightarrow> int \<Rightarrow> nat \<Rightarrow> 'w tstate \<Rightarrow> 'x batch list
    \<Rightarrow> 'w tstate result" where
  "epoch_batches T accum_steps epoch st train_iter =
     run_batches T accum_steps (length train_iter) epoch
       (st\<lparr>t_net := (t_net st)\<lparr>training := True\<rparr>,
           t_train_l_sum := 0, t_train_acc_sum := 0, t_n := 0\<rparr>)
       (enumerate 0 train_iter)"

text \<open>Line 264: the two means of the epoch, as printed and later sent to the writer.\<close>

definition train_metrics :: "'w tstate \<Rightarrow> (real \<times> real) result" where
  "train_metrics st =
     (if t_n st = 0 then Inl ZeroDivisionError
      else Inr (t_train_l_sum st / real (t_n st), t_train_acc_sum st / real (t_n st)))"

text \<open>
  Lines 263-267: the live network is evaluated (which leaves it in eval mode), the
  training means are printed, the shadow is evaluated.
\<close>

definition validate :: "('x, 'w) torch \<Rightarrow> device option \<Rightarrow> 'w tstate \<Rightarrow> 'x batch list
    \<Rightarrow> ('w tstate \<times> real \<times> real \<times> real \<times> real) result" where
  "validate T dev st test_iter =
     (case evaluate_accuracy T (t_world st) test_iter (t_net st) dev False (Some (t_ema st)) of
        Inl e \<Rightarrow> Inl e
      | Inr (test_acc, test_loss) \<Rightarrow>
          let st1 = st\<lparr>t_net := (t_net st)\<lparr>training := False\<rparr>\<rparr>
          in (case train_metrics st1 of
                Inl e \<Rightarrow> Inl e
              | Inr means \<Rightarrow>
                  (case evaluate_accuracy T (t_world st1) test_iter (t_net st1) dev True
                          (Some (t_ema st1)) of
                     Inl e \<Rightarrow> Inl e
                   | Inr (ema_test_acc, ema_test_loss) \<Rightarrow>
                       Inr (st1, test_acc, test_loss, ema_test_acc, ema_test_loss))))"

text \<open>Lines 276-278: the plateau baseline is taken from the current learning rates.\<close>

definition rebase :: "'w tstate \<Rightarrow> 'w tstate" where
  "rebase st =
     st\<lparr>t_groups := map (\<lambda>g. g\<lparr>initial_lr := Some (lr g)\<rparr>) (t_groups st),
        t_base_lrs := Some (map lr (t_groups st))\<rparr>"

definition cosine_scheduler_step :: "('x, 'w) torch \<Rightarrow> nat \<Rightarrow> 'w tstate \<Rightarrow> 'w tstate" where
  "cosine_scheduler_step T epoch st =
     st\<lparr>t_groups := map (\<lambda>(i, g). g\<lparr>lr := cosine_lr T (t_world st) epoch (t_groups st) i\<rparr>)
                       (enumerate 0 (t_groups st)),
        t_world := cosine_next T (t_world st) epoch (t_groups st),
        t_events := t_events st @ [CosineStep epoch]\<rparr>"

definition plateau_scheduler_step :: "('x, 'w) torch \<Rightarrow> nat \<Rightarrow> real \<Rightarrow> 'w tstate \<Rightarrow> 'w tstate" where
  "plateau_scheduler_step T epoch metric st =
     st\<lparr>t_groups := map (\<lambda>(i, g). g\<lparr>lr := plateau_lr T (t_world st) (t_base_lrs st) metric (t_groups st) i\<rparr>)
                       (enumerate 0 (t_groups st)),
        t_world := plateau_next T (t_world st) (t_base_lrs st) metric (t_groups st),
        t_events := t_events st @ [PlateauStep epoch metric]\<rparr>"

text \<open>Lines 270-280: which scheduler steps in this epoch.\<close>

definition schedule_block :: "('x, 'w) torch \<Rightarrow> nat \<Rightarrow> real \<Rightarrow> 'w tstate \<Rightarrow> 'w tstate" where
  "schedule_block T epoch test_acc st =
     (if epoch < 12
      then (cosine_scheduler_step T epoch st)\<lparr>t_current_scheduler := ''cosine''\<rparr>
      else
        (plateau_scheduler_step T epoch test_acc (if epoch = 12 then rebase st else st))
          \<lparr>t_current_scheduler := ''plateau''\<rparr>)"

text \<open>
  Lines 285-293: the scalars of the epoch. \<^verbatim>\<open>optimizer.param_groups[1]\<close> raises IndexError
  on an optimizer with fewer than two groups.
\<close>

definition log_scalars :: "nat \<Rightarrow> real \<Rightarrow> real \<Rightarrow> real \<Rightarrow> real \<Rightarrow> 'w tstate \<Rightarrow> 'w tstate result" where
  "log_scalars epoch test_acc test_loss ema_test_acc ema_test_loss st =
     (if length (t_groups st) < 2 then Inl IndexError
      else
        Inr (st\<lparr>t_events := t_events st @
          [AddScalar ''Loss/train'' (t_train_l_sum st / real (t_n st)) epoch,
           AddScalar ''Accuracy/train'' (t_train_acc_sum st / real (t_n st)) epoch,
           AddScalar ''Loss/val'' test_loss epoch,
           AddScalar ''Accuracy/val'' test_acc epoch,
           AddScalar ''Metrics/LR_Group0'' (lr (t_groups st ! 0)) epoch,
           AddScalar ''Metrics/LR_Group1'' (lr (t_groups st ! 1)) epoch,
           AddScalar ''Metrics/TrainVal_Gap'' (t_train_acc_sum st / real (t_n st) - test_acc) epoch,
           AddScalar ''Loss/val_ema'' ema_test_loss epoch,
           AddScalar ''Accuracy/val_ema'' ema_test_acc epoch]\<rparr>))"

text \<open>Lines 296-304: the two checkpoint writes, against the one variable \<^verbatim>\<open>best_acc\<close>.\<close>

definition save_block :: "nat \<Rightarrow> real \<Rightarrow> real \<Rightarrow> 'w tstate \<Rightarrow> 'w tstate" where
  "save_block epoch test_acc ema_test_acc st =
     (let st1 = (if test_acc > t_best_acc st
                 then st\<lparr>t_best_acc := test_acc,
                         t_best_model := Some (state_dict (t_net st)),
                         t_events := t_events st @ [SaveLive epoch]\<rparr>
                 else st)
      in if ema_test_acc > t_best_acc st1
         then st1\<lparr>t_best_acc := ema_test_acc,
                  t_best_model_ema := Some (state_dict (ema (t_ema st1))),
                  t_events := t_events st1 @ [SaveEMA epoch]\<rparr>
         else st1)"

text \<open>Lines 307-315: the composite metric and the early stop; the flag is the \<^verbatim>\<open>break\<close>.\<close>

definition early_stop_block :: "nat \<Rightarrow> real \<Rightarrow> real \<Rightarrow> 'w tstate \<Rightarrow> 'w tstate \<times> bool" where
  "early_stop_block epoch test_acc test_loss st =
     (let current_metric = test_acc * 0.8 + (1 - test_loss) * 0.2
      in if current_metric > t_best_metric st
         then (st\<lparr>t_best_metric := current_metric, t_no_improve := 0\<rparr>, False)
         else
           let st1 = st\<lparr>t_no_improve := t_no_improve st + 1\<rparr>
           in if t_no_improve st1 \<ge> patience
              then (st1\<lparr>t_events := t_events st1 @ [EarlyStop epoch]\<rparr>, True)
              else (st1, False))"

text \<open>Lines 200-267 of the loop body: the batches of the epoch, then the validation.\<close>

definition epoch_front :: "('x, 'w) torch \<Rightarrow> 'x batch list \<Rightarrow> 'x batch list \<Rightarrow> device option
    \<Rightarrow> int \<Rightarrow> nat \<Rightarrow> 'w tstate \<Rightarrow> ('w tstate \<times> real \<times> real \<times> real \<times> real) result" where
  "epoch_front T train_iter test_iter dev accum_steps epoch st =
     (case epoch_batches T accum_steps epoch st train_iter of
        Inl e \<Rightarrow> Inl e
      | Inr st1 \<Rightarrow> validate T dev st1 test_iter)"

text \<open>Lines 199-319, the body of the loop over the epochs.\<close>

definition epoch_body :: "('x, 'w) torch \<Rightarrow> 'x batch list \<Rightarrow> 'x batch list \<Rightarrow> device option
    \<Rightarrow> int \<Rightarrow> nat \<Rightarrow> 'w tstate \<Rightarrow> ('w tstate \<times> bool) result" where
  "epoch_body T train_iter test_iter dev accum_steps epoch st =
     (case epoch_front T train_iter test_iter dev accum_steps epoch st of
        Inl e \<Rightarrow> Inl e
      | Inr (st2, test_acc, test_loss, ema_test_acc, ema_test_loss) \<Rightarrow>
          (case log_scalars epoch test_acc test_loss ema_test_acc ema_test_loss
                  (schedule_block T epoch test_acc st2) of
             Inl e \<Rightarrow> Inl e
           | Inr st3 \<Rightarrow>
               Inr (early_stop_block epoch test_acc test_loss
                      (save_block epoch test_acc ema_test_acc st3))))"

fun train_epochs :: "('x, 'w) torch \<Rightarrow> 'x batch list \<Rightarrow> 'x batch list \<Rightarrow> device option
    \<Rightarrow> int \<Rightarrow> nat list \<Rightarrow> 'w tstate \<Rightarrow> 'w tstate result" where
  "train_epochs T train_iter test_iter dev accum_steps [] st = Inr st"
| "train_epochs T train_iter test_iter dev accum_steps (epoch # rest) st =
     (case epoch_body T train_iter test_iter dev accum_steps epoch st of
        Inl e \<Rightarrow> Inl e
      | Inr (st', stop) \<Rightarrow>
          if stop then Inr st' else train_epochs T train_iter test_iter dev accum_steps rest st')"

text \<open>\<^verbatim>\<open>net.to(device)\<close>; \<^verbatim>\<open>None\<close> leaves the network where it is.\<close>

definition to_device :: "nn_module \<Rightarrow> device option \<Rightarrow> nn_module" where
  "to_device model dev =
     (case dev of
        None \<Rightarrow> model
      | Some d \<Rightarrow> model\<lparr>params := map (\<lambda>p. p\<lparr>pdevice := d\<rparr>) (params model)\<rparr>)"

text \<open>
  \<^verbatim>\<open>train(train_iter, test_iter, net, loss, optimizer, device, num_epochs, best_acc, accum_steps)\<close>,
  lines 187-323. The optimizer is the one both schedulers were built on (as in
  \<^verbatim>\<open>train_fine_tuning\<close>), given by its parameter groups and the opaque state; the plateau
  scheduler starts without a \<^verbatim>\<open>base_lrs\<close> attribute. \<open>train_run\<close> returns the whole final
  state, \<open>train\<close> the returned \<^verbatim>\<open>best_acc\<close>.
\<close>

definition train_run :: "('x, 'w) torch \<Rightarrow> 'w \<Rightarrow> group list \<Rightarrow> 'x batch list \<Rightarrow> 'x batch list
    \<Rightarrow> nn_module \<Rightarrow> device option \<Rightarrow> nat \<Rightarrow> real \<Rightarrow> int \<Rightarrow> 'w tstate result" where
  "train_run T w gs train_iter test_iter model dev num_epochs best_acc accum_steps =
     (case ModelEMA_init (to_device model dev) 0.999 50 of
        Inl e \<Rightarrow> Inl e
      | Inr tracker \<Rightarrow>
          train_epochs T train_iter test_iter dev accum_steps [0..<num_epochs]
            \<lparr>t_net = to_device model dev, t_ema = tracker, t_world = w, t_groups = gs,
             t_base_lrs = None, t_best_acc = best_acc, t_best_metric = 0, t_no_improve = 0,
             t_current_scheduler = ''cosine'', t_train_l_sum = 0, t_train_acc_sum = 0, t_n = 0,
             t_best_model = None, t_best_model_ema = None, t_events = []\<rparr>)"

definition train :: "('x, 'w) torch \<Rightarrow> 'w \<Rightarrow> group list \<Rightarrow> 'x batch list \<Rightarrow> 'x batch list
    \<Rightarrow> nn_module \<Rightarrow> device option \<Rightarrow> nat \<Rightarrow> real \<Rightarrow> int \<Rightarrow> real result" where
  "train T w gs train_iter test_iter model dev num_epochs best_acc accum_steps =
     (case train_run T w gs train_iter test_iter model dev num_epochs best_acc accum_steps of
        Inl e \<Rightarrow> Inl e
      | Inr st \<Rightarrow> Inr (t_best_acc st))"

section \<open>Notions used to state the properties\<close>

text \<open>The number of samples a stream yields.\<close>

definition samples :: "'x batch list \<Rightarrow> nat" where
  "samples bs = sum_list (map (\<lambda>b. length (snd b)) bs)"

text \<open>The accuracy and the loss of one batch under a fixed model.\<close>

definition batch_accuracy :: "('x, 'w) torch \<Rightarrow> 'w \<Rightarrow> nn_module \<Rightarrow> 'x batch \<Rightarrow> real" where
  "batch_accuracy T w model b =
     real (num_correct (forward T w model (fst b)) (snd b)) / real (length (snd b))"

definition batch_loss :: "('x, 'w) torch \<Rightarrow> 'w \<Rightarrow> nn_module \<Rightarrow> 'x batch \<Rightarrow> real" where
  "batch_loss T w model b = loss_fn T (forward T w model (fst b)) (snd b)"

text \<open>
  The shadow is aligned with the network when it has as many parameters, each of the
  same size, and the tracker's \<^verbatim>\<open>total_epochs\<close> is not zero.
\<close>

definition tracker_aligned :: "'w tstate \<Rightarrow> bool" where
  "tracker_aligned st \<longleftrightarrow>
     total_epochs (t_ema st) \<noteq> 0 \<and> shapes (ema (t_ema st)) = shapes (t_net st)"

text \<open>The variables that neither the batch loop nor the validation writes.\<close>

definition frame :: "'w tstate \<Rightarrow>
    group list \<times> real list option \<times> real \<times> real \<times> nat \<times> tensor list option \<times> tensor list option" where
  "frame st = (t_groups st, t_base_lrs st, t_best_acc st, t_best_metric st, t_no_improve st,
               t_best_model st, t_best_model_ema st)"

text \<open>Projections of the event list.\<close>

fun is_opt_step :: "event \<Rightarrow> bool" where
  "is_opt_step (OptStep epoch i) = True"
| "is_opt_step ev = False"

fun is_sched :: "event \<Rightarrow> bool" where
  "is_sched (CosineStep epoch) = True"
| "is_sched (PlateauStep epoch metric) = True"
| "is_sched ev = False"

fun is_save :: "event \<Rightarrow> bool" where
  "is_save (SaveLive epoch) = True"
| "is_save (SaveEMA epoch) = True"
| "is_save ev = False"

fun progress_of :: "event list \<Rightarrow> (real \<times> real) list" where
  "progress_of [] = []"
| "progress_of (Progress epoch i l a # evs) = (l, a) # progress_of evs"
| "progress_of (ev # evs) = progress_of evs"

text \<open>The step-boundary condition of line 222, for a batch index.\<close>

definition step_due :: "int \<Rightarrow> nat \<Rightarrow> nat \<Rightarrow> bool" where
  "step_due accum_steps total_batches i \<longleftrightarrow>
     (int i + 1) mod accum_steps = 0 \<or> i + 1 = total_batches"

text \<open>The event of the scheduler block in an epoch, given the validation accuracy.\<close>

definition sched_event :: "nat \<Rightarrow> real \<Rightarrow> event" where
  "sched_event epoch test_acc = (if epoch < 12 then CosineStep epoch else PlateauStep epoch test_acc)"

text \<open>
  The policy as the specification words it, with two best-accuracy records: the new
  records, and whether the live and the shadow checkpoint are written.
\<close>

definition spec_checkpoint_policy :: "real \<times> real \<Rightarrow> real \<Rightarrow> real \<Rightarrow> (real \<times> real) \<times> bool \<times> bool" where
  "spec_checkpoint_policy best test_acc ema_test_acc =
     ((max (fst best) test_acc, max (snd best) ema_test_acc),
      test_acc > fst best, ema_test_acc > snd best)"

text \<open>
  The accumulation loop as the specification words it, on the network, the tracker and
  the collaborators' state: for each batch in order, the forward and the backward pass
  on the loss divided by \<^verbatim>\<open>accum_steps\<close>; then, when \<open>(i + 1) mod accum_steps = 0\<close> or the
  batch is the last one, the optimizer step, the gradients zeroed, and the EMA update
  with the index of the epoch.
\<close>

fun spec_accumulation :: "('x, 'w) torch \<Rightarrow> int \<Rightarrow> nat \<Rightarrow> nat \<Rightarrow> group list
    \<Rightarrow> nn_module \<times> ModelEMA \<times> 'w \<Rightarrow> (nat \<times> 'x batch) list
    \<Rightarrow> (nn_module \<times> ModelEMA \<times> 'w) result" where
  "spec_accumulation T accum_steps N epoch gs s [] = Inr s"
| "spec_accumulation T accum_steps N epoch gs (model, tracker, w) ((i, X, y) # rest) =
     (let accumulated = backward T w model X y
            (loss_fn T (forward T w model X) y / real_of_int accum_steps)
      in if (int i + 1) mod accum_steps = 0 \<or> i + 1 = N
         then (case update tracker (optimizer_step T accumulated gs model) (int epoch) of
                 Inl e \<Rightarrow> Inl e
               | Inr (tracker', model') \<Rightarrow>
                   spec_accumulation T accum_steps N epoch gs
                     (model', tracker', step_next T accumulated gs model) rest)
         else spec_accumulation T accum_steps N epoch gs (model, tracker, accumulated) rest)"

section \<open>A concrete instance of the collaborators\<close>

text \<open>
  A small instance on which the model runs: the input of a batch is its logits, the loss
  is the error rate of the batch, the optimizer halves every value, the cosine scheduler
  halves every rate and the plateau scheduler multiplies it by 0.3; the opaque state
  counts the backward passes since the last step; the scalars are the integers from
  \<open>- 2 ^ 63\<close> to below \<open>2 ^ 64\<close>.
\<close>

definition toy_torch :: "(real list list, nat) torch" where
  "toy_torch =
     \<lparr>forward = (\<lambda>w model X. X),
      loss_fn = (\<lambda>output y. 1 - real (num_correct output y) / real (length y)),
      backward = (\<lambda>w model X y l. Suc w),
      step_value = (\<lambda>w gs model i j. data (params model ! i) ! j / 2),
      step_next = (\<lambda>w gs model. 0),
      cosine_lr = (\<lambda>w epoch gs i. lr (gs ! i) / 2),
      cosine_next = (\<lambda>w epoch gs. w),
      plateau_lr = (\<lambda>w base metric gs i. lr (gs ! i) * 0.3),
      plateau_next = (\<lambda>w base metric gs. w),
      scalar_ok = (\<lambda>k. - (2 ^ 63) \<le> k \<and> k < 2 ^ 64)\<rparr>"

definition toy_net :: nn_module where
  "toy_net = \<lparr>params = [\<lparr>data = [2, 4], requires_grad = True, pdevice = CPU\<rparr>], training = True\<rparr>"

definition toy_groups :: "group list" where
  "toy_groups = [\<lparr>lr = 0.00002, weight_decay = 0.001, initial_lr = Some 0.00002\<rparr>,
                 \<lparr>lr = 0.0005, weight_decay = 0.003, initial_lr = Some 0.0005\<rparr>,
                 \<lparr>lr = 0.001, weight_decay = 0.005, initial_lr = Some 0.001\<rparr>]"

text \<open>A batch of \<open>k\<close> samples with two classes, of which the first \<open>c\<close> (at most \<open>k\<close>) are
  predicted right.\<close>

definition toy_batch :: "nat \<Rightarrow> nat \<Rightarrow> real list list batch" where
  "toy_batch k c = (replicate k [1, 0], replicate (min c k) 0 @ replicate (k - c) 1)"

definition toy_state :: "nat tstate" where
  "toy_state =
     \<lparr>t_net = toy_net,
      t_ema = \<lparr>ema = toy_net\<lparr>training := False\<rparr>, initial_decay = 0.999, min_decay = 0.995,
               total_epochs = 50\<rparr>,
      t_world = 0, t_groups = toy_groups,
      t_base_lrs = None, t_best_acc = 0, t_best_metric = 0, t_no_improve = 0,
      t_current_scheduler = ''cosine'', t_train_l_sum = 0, t_train_acc_sum = 0, t_n = 0,
      t_best_model = None, t_best_model_ema = None, t_events = []\<rparr>"

section \<open>Auxiliary facts\<close>

lemma for_zip_copy_self:
  "for_zip copy_tensor (map (\<lambda>p. p\<lparr>requires_grad := False\<rparr>) ps) ps
     = Inr (map (\<lambda>p. p\<lparr>requires_grad := False\<rparr>) ps)"
  by (induction ps) (simp_all add: copy_tensor_def broadcast_def)

lemma ModelEMA_init_eq:
  "ModelEMA_init model decay epochs =
     Inr \<lparr>ema = \<lparr>params = map (\<lambda>p. p\<lparr>requires_grad := False\<rparr>) (params model), training = False\<rparr>,
          initial_decay = decay, min_decay = 0.995, total_epochs = epochs\<rparr>"
  by (simp add: ModelEMA_init_def deepcopy_def for_zip_copy_self Let_def)

lemma for_zip_ema_step:
  "map (\<lambda>p. length (data p)) es = map (\<lambda>p. length (data p)) ms \<Longrightarrow>
   for_zip (ema_step d) es ms =
     Inr (map2 (\<lambda>e m. e\<lparr>data := map2 (\<lambda>s l. d * s + (1 - d) * l) (data e) (data m)\<rparr>) es ms)"
proof (induction es arbitrary: ms)
  case Nil
  then show ?case by simp
next
  case (Cons e es)
  then obtain m ms' where ms: "ms = m # ms'" by (cases ms) auto
  with Cons.prems have len: "length (data e) = length (data m)"
    and rest: "map (\<lambda>p. length (data p)) es = map (\<lambda>p. length (data p)) ms'" by auto
  have "map2 (\<lambda>x y. x + (1 - d) * y) (map (\<lambda>x. x * d) (data e)) (data m)
        = map2 (\<lambda>s l. d * s + (1 - d) * l) (data e) (data m)"
    by (simp add: zip_map1 mult.commute case_prod_unfold)
  with len Cons.IH[OF rest] show ?case
    by (simp add: ms ema_step_def broadcast_def)
qed

lemma current_decay_Inr:
  "total_epochs self \<noteq> 0 \<Longrightarrow>
   current_decay self e =
     Inr (max (initial_decay self - (initial_decay self - min_decay self)
                 * (real_of_int e / real_of_int (total_epochs self))) (min_decay self))"
  by (simp add: current_decay_def Let_def)

lemma eval_loop_sums:
  "eval_loop T w model bs (a, l, n) =
     (a + (\<Sum>b\<leftarrow>bs. real (num_correct (forward T w model (fst b)) (snd b))),
      l + (\<Sum>b\<leftarrow>bs. batch_loss T w model b * real (length (snd b))),
      n + samples bs)"
proof (induction bs arbitrary: a l n)
  case Nil
  then show ?case by (simp add: samples_def)
next
  case (Cons b bs)
  obtain X y where b: "b = (X, y)" by (cases b)
  show ?case
    by (simp add: b Cons.IH Let_def batch_loss_def samples_def add.assoc)
qed

lemma num_correct_le: "num_correct output y \<le> length y"
proof -
  have "num_correct output y \<le> length (zip output y)"
    unfolding num_correct_def by (rule length_filter_le)
  then show ?thesis by simp
qed

lemma weighted_accuracy:
  "real (length (snd b)) * batch_accuracy T w model b
     = real (num_correct (forward T w model (fst b)) (snd b))"
proof (cases "snd b = []")
  case True
  with num_correct_le [of "forward T w model (fst b)" "snd b"] show ?thesis
    by (simp add: batch_accuracy_def)
next
  case False
  then show ?thesis by (simp add: batch_accuracy_def)
qed

lemma evaluate_accuracy_cases:
  "evaluate_accuracy T w data_iter net dev use_ema ema_model =
     (if dev = None \<and> params net = [] then Inl StopIteration
      else if use_ema \<and> ema_model = None then Inl ValueError
      else if samples data_iter = 0 then Inl ZeroDivisionError
      else
        let model = (if use_ema then ema (the ema_model) else net)\<lparr>training := False\<rparr>
        in Inr ((\<Sum>b\<leftarrow>data_iter. real (num_correct (forward T w model (fst b)) (snd b)))
                  / real (samples data_iter),
                (\<Sum>b\<leftarrow>data_iter. batch_loss T w model b * real (length (snd b)))
                  / real (samples data_iter)))"
  by (auto simp: evaluate_accuracy_def eval_loop_sums Let_def
           split: option.splits list.splits)

lemma map_case_enumerate: "map (\<lambda>(i, p). f p) (enumerate k xs) = map f xs"
  by (induction xs arbitrary: k) simp_all

lemma shapes_optimizer_step: "shapes (optimizer_step T w gs model) = shapes model"
proof -
  have "map (\<lambda>p. length (data p))
          (map (\<lambda>(i, p). p\<lparr>data := map (step_value T w gs model i) [0..<length (data p)]\<rparr>)
             (enumerate 0 (params model)))
        = map (\<lambda>(i, p). length (data p)) (enumerate 0 (params model))"
    by (simp add: case_prod_unfold comp_def)
  then show ?thesis
    by (simp add: shapes_def optimizer_step_def map_case_enumerate)
qed

lemma shapes_map2:
  "map (\<lambda>p. length (data p)) es = map (\<lambda>p. length (data p)) ms \<Longrightarrow>
   map (\<lambda>p. length (data p)) (map2 (\<lambda>e m. e\<lparr>data := map2 f (data e) (data m)\<rparr>) es ms)
     = map (\<lambda>p. length (data p)) ms"
proof (induction es arbitrary: ms)
  case Nil
  then show ?case by simp
next
  case (Cons e es)
  then obtain m ms' where "ms = m # ms'" by (cases ms) auto
  with Cons show ?case by auto
qed

lemma update_aligned:
  assumes "total_epochs self \<noteq> 0" and "shapes (ema self) = shapes model"
  shows "\<exists>tracker. update self model e = Inr (tracker, model)
           \<and> shapes (ema tracker) = shapes model \<and> total_epochs tracker = total_epochs self"
proof -
  from assms(2) have len: "map (\<lambda>p. length (data p)) (params (ema self))
                       = map (\<lambda>p. length (data p)) (params model)"
    by (simp add: shapes_def)
  define d where "d = max (initial_decay self - (initial_decay self - min_decay self)
                 * (real_of_int e / real_of_int (total_epochs self))) (min_decay self)"
  define ps where "ps = map2 (\<lambda>e m. e\<lparr>data := map2 (\<lambda>s l. d * s + (1 - d) * l) (data e) (data m)\<rparr>)
                          (params (ema self)) (params model)"
  have "current_decay self e = Inr d"
    using assms(1) by (simp add: current_decay_Inr d_def)
  moreover have "for_zip (ema_step d) (params (ema self)) (params model) = Inr ps"
    using len by (simp add: for_zip_ema_step ps_def)
  ultimately have u: "update self model e = Inr (self\<lparr>ema := (ema self)\<lparr>params := ps\<rparr>\<rparr>, model)"
    by (simp add: update_def)
  have "map (\<lambda>p. length (data p)) ps = map (\<lambda>p. length (data p)) (params model)"
    unfolding ps_def using len by (rule shapes_map2)
  then have "shapes (ema (self\<lparr>ema := (ema self)\<lparr>params := ps\<rparr>\<rparr>)) = shapes model"
    by (simp add: shapes_def)
  with u show ?thesis by simp
qed

lemma update_keeps_model: "update self model e = Inr (tracker, model') \<Longrightarrow> model' = model"
  by (auto simp: update_def split: sum.splits)

lemma step_block_Inr:
  assumes "step_block T epoch i st = Inr st'"
  shows "frame st' = frame st" and "t_events st' = t_events st @ [OptStep epoch i]"
    and "t_train_l_sum st' = t_train_l_sum st" and "t_train_acc_sum st' = t_train_acc_sum st"
    and "t_n st' = t_n st"
  using assms by (auto simp: step_block_def frame_def Let_def split: sum.splits)

lemma flags_optimizer_step:
  "map requires_grad (params (optimizer_step T w gs model)) = map requires_grad (params model)"
proof -
  have "map requires_grad
          (map (\<lambda>(i, p). p\<lparr>data := map (step_value T w gs model i) [0..<length (data p)]\<rparr>)
             (enumerate 0 (params model)))
        = map (\<lambda>(i, p). requires_grad p) (enumerate 0 (params model))"
    by (simp add: case_prod_unfold comp_def)
  then show ?thesis
    by (simp add: optimizer_step_def map_case_enumerate)
qed

lemma trainable_flags: "trainable model \<longleftrightarrow> True \<in> set (map requires_grad (params model))"
  by (auto simp: trainable_def list_ex_iff)

lemma trainable_optimizer_step: "trainable (optimizer_step T w gs model) = trainable model"
  by (simp only: trainable_flags flags_optimizer_step)

lemma step_block_aligned:
  assumes "tracker_aligned st"
  shows "\<exists>st'. step_block T epoch i st = Inr st' \<and> tracker_aligned st'
           \<and> shapes (t_net st') = shapes (t_net st)
           \<and> trainable (t_net st') = trainable (t_net st)"
proof -
  let ?stepped = "optimizer_step T (t_world st) (t_groups st) (t_net st)"
  from assms have "total_epochs (t_ema st) \<noteq> 0" and "shapes (ema (t_ema st)) = shapes ?stepped"
    by (simp_all add: tracker_aligned_def shapes_optimizer_step)
  from update_aligned [OF this, of "int epoch"] obtain tracker where
    "update (t_ema st) ?stepped (int epoch) = Inr (tracker, ?stepped)"
    "shapes (ema tracker) = shapes ?stepped" "total_epochs tracker = total_epochs (t_ema st)"
    by blast
  with assms show ?thesis
    by (simp add: step_block_def Let_def tracker_aligned_def shapes_optimizer_step
          trainable_optimizer_step)
qed

lemma train_batch_Inr:
  assumes "train_batch T accum_steps total_batches epoch st (i, X, y) = Inr st'"
  shows "frame st' = frame st"
    and "\<exists>l a. t_events st' = t_events st
            @ (if step_due accum_steps total_batches i then [OptStep epoch i] else [])
            @ [Progress epoch i l a]
          \<and> l = loss_fn T (forward T (t_world st) (t_net st) X) y
                  / real_of_int accum_steps * real_of_int accum_steps
          \<and> a = real (num_correct (forward T (t_world st) (t_net st) X) y) / real (length y)
          \<and> t_train_l_sum st' = t_train_l_sum st + l * real (length y)
          \<and> t_train_acc_sum st' = t_train_acc_sum st + real (length y) * a
          \<and> t_n st' = t_n st + length y"
    and "accum_steps \<noteq> 0" and "y \<noteq> []"
proof -
  let ?st1 = "st\<lparr>t_world := backward T (t_world st) (t_net st) X y
      (loss_fn T (forward T (t_world st) (t_net st) X) y / real_of_int accum_steps)\<rparr>"
  from assms show nz: "accum_steps \<noteq> 0" and ne: "y \<noteq> []"
    by (auto simp: train_batch_def Let_def split: sum.splits if_splits)
  show "frame st' = frame st"
  proof (cases "step_due accum_steps total_batches i")
    case True
    with assms nz ne obtain st2 where "step_block T epoch i ?st1 = Inr st2"
      and "st' = st2\<lparr>t_train_l_sum := t_train_l_sum st2 + loss_fn T (forward T (t_world st) (t_net st) X) y
                  / real_of_int accum_steps * real_of_int accum_steps * real (length y),
            t_train_acc_sum := t_train_acc_sum st2 + real (num_correct (forward T (t_world st) (t_net st) X) y),
            t_n := t_n st2 + length y,
            t_events := t_events st2 @ [Progress epoch i (loss_fn T (forward T (t_world st) (t_net st) X) y
                  / real_of_int accum_steps * real_of_int accum_steps)
               (real (num_correct (forward T (t_world st) (t_net st) X) y) / real (length y))]\<rparr>"
      by (auto simp: train_batch_def Let_def step_due_def split: sum.splits if_splits)
    then show ?thesis using step_block_Inr(1)[of T epoch i ?st1 st2] by (simp add: frame_def)
  next
    case False
    with assms nz ne show ?thesis
      by (auto simp: train_batch_def Let_def step_due_def frame_def split: sum.splits if_splits)
  qed
  show "\<exists>l a. t_events st' = t_events st
            @ (if step_due accum_steps total_batches i then [OptStep epoch i] else [])
            @ [Progress epoch i l a]
          \<and> l = loss_fn T (forward T (t_world st) (t_net st) X) y
                  / real_of_int accum_steps * real_of_int accum_steps
          \<and> a = real (num_correct (forward T (t_world st) (t_net st) X) y) / real (length y)
          \<and> t_train_l_sum st' = t_train_l_sum st + l * real (length y)
          \<and> t_train_acc_sum st' = t_train_acc_sum st + real (length y) * a
          \<and> t_n st' = t_n st + length y"
  proof (cases "step_due accum_steps total_batches i")
    case True
    with assms nz ne obtain st2 where sb: "step_block T epoch i ?st1 = Inr st2"
      and "st' = st2\<lparr>t_train_l_sum := t_train_l_sum st2 + loss_fn T (forward T (t_world st) (t_net st) X) y
                  / real_of_int accum_steps * real_of_int accum_steps * real (length y),
            t_train_acc_sum := t_train_acc_sum st2 + real (num_correct (forward T (t_world st) (t_net st) X) y),
            t_n := t_n st2 + length y,
            t_events := t_events st2 @ [Progress epoch i (loss_fn T (forward T (t_world st) (t_net st) X) y
                  / real_of_int accum_steps * real_of_int accum_steps)
               (real (num_correct (forward T (t_world st) (t_net st) X) y) / real (length y))]\<rparr>"
      by (auto simp: train_batch_def Let_def step_due_def split: sum.splits if_splits)
    then show ?thesis using step_block_Inr(2-5)[OF sb] True ne by simp
  next
    case False
    with assms nz ne show ?thesis
      by (auto simp: train_batch_def Let_def step_due_def split: sum.splits if_splits)
  qed
qed

lemma progress_of_append: "progress_of (xs @ ys) = progress_of xs @ progress_of ys"
  by (induction xs rule: progress_of.induct) simp_all

lemma run_batches_Inr_frame:
  "run_batches T a N epoch st ibs = Inr st' \<Longrightarrow> frame st' = frame st"
proof (induction ibs arbitrary: st)
  case Nil
  then show ?case by simp
next
  case (Cons ib ibs)
  obtain i X y where ib: "ib = (i, X, y)" by (cases ib)
  from Cons.prems obtain st1 where 1: "train_batch T a N epoch st (i, X, y) = Inr st1"
    and 2: "run_batches T a N epoch st1 ibs = Inr st'"
    by (auto simp: ib split: sum.splits)
  from train_batch_Inr(1)[OF 1] Cons.IH[OF 2] show ?case by simp
qed

lemma run_batches_Inr_nonempty:
  "run_batches T a N epoch st ibs = Inr st' \<Longrightarrow> ib \<in> set ibs \<Longrightarrow> a \<noteq> 0 \<and> snd (snd ib) \<noteq> []"
proof (induction ibs arbitrary: st)
  case Nil
  then show ?case by simp
next
  case (Cons ib0 ibs)
  obtain i X y where ib: "ib0 = (i, X, y)" by (cases ib0)
  from Cons.prems(1) obtain st1 where 1: "train_batch T a N epoch st (i, X, y) = Inr st1"
    and 2: "run_batches T a N epoch st1 ibs = Inr st'"
    by (auto simp: ib split: sum.splits)
  from train_batch_Inr(3,4)[OF 1] Cons.IH[OF 2] Cons.prems(2) show ?case
    by (auto simp: ib)
qed

lemma run_batches_Inr_events:
  "run_batches T a N epoch st ibs = Inr st' \<Longrightarrow>
   filter is_opt_step (t_events st')
     = filter is_opt_step (t_events st) @ map (OptStep epoch) (filter (step_due a N) (map fst ibs))
   \<and> filter is_sched (t_events st') = filter is_sched (t_events st)
   \<and> filter is_save (t_events st') = filter is_save (t_events st)"
proof (induction ibs arbitrary: st)
  case Nil
  then show ?case by simp
next
  case (Cons ib ibs)
  obtain i X y where ib: "ib = (i, X, y)" by (cases ib)
  from Cons.prems obtain st1 where 1: "train_batch T a N epoch st (i, X, y) = Inr st1"
    and 2: "run_batches T a N epoch st1 ibs = Inr st'"
    by (auto simp: ib split: sum.splits)
  from train_batch_Inr(2)[OF 1] obtain l acc where
    "t_events st1 = t_events st @ (if step_due a N i then [OptStep epoch i] else [])
        @ [Progress epoch i l acc]" by blast
  with Cons.IH[OF 2] show ?case by (simp add: ib)
qed

lemma run_batches_Inr_sums:
  "run_batches T a N epoch st ibs = Inr st' \<Longrightarrow>
   \<exists>ps. length ps = length ibs
     \<and> progress_of (t_events st') = progress_of (t_events st) @ ps
     \<and> t_n st' = t_n st + (\<Sum>ib\<leftarrow>ibs. length (snd (snd ib)))
     \<and> t_train_acc_sum st' = t_train_acc_sum st
         + (\<Sum>(p, k)\<leftarrow>zip ps (map (\<lambda>ib. length (snd (snd ib))) ibs). real k * snd p)
     \<and> t_train_l_sum st' = t_train_l_sum st
         + (\<Sum>(p, k)\<leftarrow>zip ps (map (\<lambda>ib. length (snd (snd ib))) ibs). fst p * real k)"
proof (induction ibs arbitrary: st)
  case Nil
  then show ?case by simp
next
  case (Cons ib ibs)
  obtain i X y where ib: "ib = (i, X, y)" by (cases ib)
  from Cons.prems obtain st1 where 1: "train_batch T a N epoch st (i, X, y) = Inr st1"
    and 2: "run_batches T a N epoch st1 ibs = Inr st'"
    by (auto simp: ib split: sum.splits)
  from train_batch_Inr(2)[OF 1] obtain l acc where
    ev: "t_events st1 = t_events st @ (if step_due a N i then [OptStep epoch i] else [])
        @ [Progress epoch i l acc]"
    and ls: "t_train_l_sum st1 = t_train_l_sum st + l * real (length y)"
    and as: "t_train_acc_sum st1 = t_train_acc_sum st + real (length y) * acc"
    and n: "t_n st1 = t_n st + length y" by blast
  from Cons.IH[OF 2] obtain ps where ps: "length ps = length ibs"
     "progress_of (t_events st') = progress_of (t_events st1) @ ps"
     "t_n st' = t_n st1 + (\<Sum>ib\<leftarrow>ibs. length (snd (snd ib)))"
     "t_train_acc_sum st' = t_train_acc_sum st1
         + (\<Sum>(p, k)\<leftarrow>zip ps (map (\<lambda>ib. length (snd (snd ib))) ibs). real k * snd p)"
     "t_train_l_sum st' = t_train_l_sum st1
         + (\<Sum>(p, k)\<leftarrow>zip ps (map (\<lambda>ib. length (snd (snd ib))) ibs). fst p * real k)"
    by blast
  have pe: "progress_of (t_events st1) = progress_of (t_events st) @ [(l, acc)]"
    by (simp add: ev progress_of_append)
  show ?case
  proof (intro exI conjI)
    show "length ((l, acc) # ps) = length (ib # ibs)" using ps(1) by simp
    show "progress_of (t_events st') = progress_of (t_events st) @ (l, acc) # ps"
      by (simp add: ps(2) pe)
    show "t_n st' = t_n st + (\<Sum>ib\<leftarrow>ib # ibs. length (snd (snd ib)))"
      by (simp add: ps(3) n ib)
    show "t_train_acc_sum st' = t_train_acc_sum st
         + (\<Sum>(p, k)\<leftarrow>zip ((l, acc) # ps) (map (\<lambda>ib. length (snd (snd ib))) (ib # ibs)). real k * snd p)"
      by (simp add: ps(4) as ib)
    show "t_train_l_sum st' = t_train_l_sum st
         + (\<Sum>(p, k)\<leftarrow>zip ((l, acc) # ps) (map (\<lambda>ib. length (snd (snd ib))) (ib # ibs)). fst p * real k)"
      by (simp add: ps(5) ls ib)
  qed
qed

lemma train_batch_aligned:
  assumes "tracker_aligned st" and "trainable (t_net st)" and "scalar_ok T accum_steps"
    and "accum_steps \<noteq> 0" and "y \<noteq> []"
  shows "\<exists>st'. train_batch T accum_steps total_batches epoch st (i, X, y) = Inr st'
           \<and> tracker_aligned st' \<and> shapes (t_net st') = shapes (t_net st)
           \<and> trainable (t_net st')"
proof -
  let ?st1 = "st\<lparr>t_world := backward T (t_world st) (t_net st) X y
      (loss_fn T (forward T (t_world st) (t_net st) X) y / real_of_int accum_steps)\<rparr>"
  from assms(1) have al: "tracker_aligned ?st1" by (simp add: tracker_aligned_def)
  from step_block_aligned [OF al, of T epoch i] obtain st2 where
    "step_block T epoch i ?st1 = Inr st2" "tracker_aligned st2"
    "shapes (t_net st2) = shapes (t_net st)" "trainable (t_net st2) = trainable (t_net st)" by auto
  with assms al show ?thesis
    by (simp add: train_batch_def Let_def tracker_aligned_def)
qed

lemma run_batches_aligned:
  "tracker_aligned st \<Longrightarrow> trainable (t_net st) \<Longrightarrow> scalar_ok T accum_steps \<Longrightarrow> accum_steps \<noteq> 0 \<Longrightarrow>
   \<forall>ib\<in>set ibs. snd (snd ib) \<noteq> [] \<Longrightarrow>
   \<exists>st'. run_batches T accum_steps N epoch st ibs = Inr st' \<and> tracker_aligned st'
     \<and> shapes (t_net st') = shapes (t_net st) \<and> trainable (t_net st')"
proof (induction ibs arbitrary: st)
  case Nil
  then show ?case by simp
next
  case (Cons ib ibs)
  obtain i X y where ib: "ib = (i, X, y)" by (cases ib)
  with Cons.prems have "y \<noteq> []" by simp
  from train_batch_aligned [OF Cons.prems(1,2,3,4) this, of N epoch i X] obtain st1 where
    1: "train_batch T accum_steps N epoch st (i, X, y) = Inr st1" and 2: "tracker_aligned st1"
    and 3: "shapes (t_net st1) = shapes (t_net st)" and 4: "trainable (t_net st1)" by blast
  from Cons.IH [OF 2 4 Cons.prems(3,4)] Cons.prems(5) obtain st' where
    "run_batches T accum_steps N epoch st1 ibs = Inr st'" "tracker_aligned st'"
    "shapes (t_net st') = shapes (t_net st1)" "trainable (t_net st')" by auto
  with 1 3 show ?case by (simp add: ib)
qed

lemma sizes_enumerate:
  "map (\<lambda>ib. length (snd (snd ib))) (enumerate k xs) = map (\<lambda>b. length (snd b)) xs"
  by (induction xs arbitrary: k) simp_all

lemma epoch_batches_Inr:
  assumes "epoch_batches T a epoch st train_iter = Inr st'"
  shows "frame st' = frame st"
    and "filter is_opt_step (t_events st') = filter is_opt_step (t_events st)
           @ map (OptStep epoch) (filter (step_due a (length train_iter)) [0..<length train_iter])"
    and "filter is_sched (t_events st') = filter is_sched (t_events st)"
    and "filter is_save (t_events st') = filter is_save (t_events st)"
    and "\<exists>ps. length ps = length train_iter
           \<and> progress_of (t_events st') = progress_of (t_events st) @ ps
           \<and> t_n st' = samples train_iter
           \<and> t_train_acc_sum st' = (\<Sum>(p, k)\<leftarrow>zip ps (map (\<lambda>b. length (snd b)) train_iter). real k * snd p)
           \<and> t_train_l_sum st' = (\<Sum>(p, k)\<leftarrow>zip ps (map (\<lambda>b. length (snd b)) train_iter). fst p * real k)"
    and "\<forall>b\<in>set train_iter. snd b \<noteq> []"
    and "train_iter \<noteq> [] \<longrightarrow> a \<noteq> 0"
proof -
  let ?st0 = "st\<lparr>t_net := (t_net st)\<lparr>training := True\<rparr>,
           t_train_l_sum := 0, t_train_acc_sum := 0, t_n := 0\<rparr>"
  from assms have run: "run_batches T a (length train_iter) epoch ?st0 (enumerate 0 train_iter) = Inr st'"
    by (simp add: epoch_batches_def)
  from run_batches_Inr_frame [OF run] show "frame st' = frame st"
    by (simp add: frame_def)
  from run_batches_Inr_events [OF run]
  show "filter is_opt_step (t_events st') = filter is_opt_step (t_events st)
           @ map (OptStep epoch) (filter (step_due a (length train_iter)) [0..<length train_iter])"
    and "filter is_sched (t_events st') = filter is_sched (t_events st)"
    and "filter is_save (t_events st') = filter is_save (t_events st)"
    by simp_all
  from run_batches_Inr_sums [OF run]
  show "\<exists>ps. length ps = length train_iter
           \<and> progress_of (t_events st') = progress_of (t_events st) @ ps
           \<and> t_n st' = samples train_iter
           \<and> t_train_acc_sum st' = (\<Sum>(p, k)\<leftarrow>zip ps (map (\<lambda>b. length (snd b)) train_iter). real k * snd p)
           \<and> t_train_l_sum st' = (\<Sum>(p, k)\<leftarrow>zip ps (map (\<lambda>b. length (snd b)) train_iter). fst p * real k)"
    by (simp add: sizes_enumerate samples_def)
  show "\<forall>b\<in>set train_iter. snd b \<noteq> []"
  proof
    fix b assume "b \<in> set train_iter"
    then obtain i where "i < length train_iter" "train_iter ! i = b"
      by (auto simp: in_set_conv_nth)
    then have "(i, b) \<in> set (enumerate 0 train_iter)"
      by (simp add: in_set_enumerate_eq)
    from run_batches_Inr_nonempty [OF run this] show "snd b \<noteq> []" by simp
  qed
  show "train_iter \<noteq> [] \<longrightarrow> a \<noteq> 0"
  proof
    assume "train_iter \<noteq> []"
    then have "(0, train_iter ! 0) \<in> set (enumerate 0 train_iter)"
      by (simp add: in_set_enumerate_eq)
    from run_batches_Inr_nonempty [OF run this] show "a \<noteq> 0" by simp
  qed
qed

lemma epoch_batches_aligned:
  assumes "tracker_aligned st" and "trainable (t_net st)" and "scalar_ok T accum_steps"
    and "accum_steps \<noteq> 0" and "\<forall>b\<in>set train_iter. snd b \<noteq> []"
  shows "\<exists>st'. epoch_batches T accum_steps epoch st train_iter = Inr st' \<and> tracker_aligned st'
           \<and> shapes (t_net st') = shapes (t_net st) \<and> trainable (t_net st')"
proof -
  let ?st0 = "st\<lparr>t_net := (t_net st)\<lparr>training := True\<rparr>,
           t_train_l_sum := 0, t_train_acc_sum := 0, t_n := 0\<rparr>"
  from assms(1) have al: "tracker_aligned ?st0"
    by (simp add: tracker_aligned_def shapes_def)
  from assms(2) have tr: "trainable (t_net ?st0)"
    by (simp add: trainable_def)
  have ne: "\<forall>ib\<in>set (enumerate 0 train_iter). snd (snd ib) \<noteq> []"
  proof
    fix ib assume "ib \<in> set (enumerate 0 train_iter)"
    then have "fst ib < length train_iter" "train_iter ! fst ib = snd ib"
      by (simp_all add: in_set_enumerate_eq)
    then have "snd ib \<in> set train_iter"
      by (metis nth_mem)
    with assms(5) show "snd (snd ib) \<noteq> []" by blast
  qed
  from run_batches_aligned [OF al tr assms(3,4) ne, of "length train_iter" epoch]
  show ?thesis by (simp add: epoch_batches_def shapes_def)
qed

lemma validate_Inr:
  assumes "validate T dev st test_iter = Inr (st2, acc, loss, eacc, eloss)"
  shows "st2 = st\<lparr>t_net := (t_net st)\<lparr>training := False\<rparr>\<rparr>" and "t_n st \<noteq> 0"
    and "evaluate_accuracy T (t_world st) test_iter (t_net st) dev False (Some (t_ema st)) = Inr (acc, loss)"
    and "evaluate_accuracy T (t_world st) test_iter ((t_net st)\<lparr>training := False\<rparr>) dev True (Some (t_ema st))
           = Inr (eacc, eloss)"
  using assms
  by (auto simp: validate_def train_metrics_def Let_def split: sum.splits prod.splits if_splits)

lemma validate_ok:
  assumes "dev \<noteq> None \<or> params (t_net st) \<noteq> []" and "samples test_iter \<noteq> 0" and "t_n st \<noteq> 0"
  shows "\<exists>acc loss eacc eloss. validate T dev st test_iter
           = Inr (st\<lparr>t_net := (t_net st)\<lparr>training := False\<rparr>\<rparr>, acc, loss, eacc, eloss)"
proof -
  from assms(1,2) obtain acc loss where
    1: "evaluate_accuracy T (t_world st) test_iter (t_net st) dev False (Some (t_ema st)) = Inr (acc, loss)"
    by (auto simp: evaluate_accuracy_cases Let_def)
  from assms(1,2) obtain eacc eloss where
    2: "evaluate_accuracy T (t_world st) test_iter ((t_net st)\<lparr>training := False\<rparr>) dev True (Some (t_ema st))
           = Inr (eacc, eloss)"
    by (auto simp: evaluate_accuracy_cases Let_def)
  from 1 2 assms(3) show ?thesis
    by (simp add: validate_def train_metrics_def Let_def)
qed

lemma schedule_block_events:
  "t_events (schedule_block T epoch acc st) = t_events st @ [sched_event epoch acc]"
  by (simp add: schedule_block_def cosine_scheduler_step_def plateau_scheduler_step_def
        rebase_def sched_event_def)

lemma schedule_block_keeps:
  "t_net (schedule_block T epoch acc st) = t_net st"
  "t_ema (schedule_block T epoch acc st) = t_ema st"
  "t_best_acc (schedule_block T epoch acc st) = t_best_acc st"
  "t_best_metric (schedule_block T epoch acc st) = t_best_metric st"
  "t_no_improve (schedule_block T epoch acc st) = t_no_improve st"
  "t_n (schedule_block T epoch acc st) = t_n st"
  "length (t_groups (schedule_block T epoch acc st)) = length (t_groups st)"
  by (simp_all add: schedule_block_def cosine_scheduler_step_def plateau_scheduler_step_def
        rebase_def)

lemma log_scalars_Inr:
  assumes "log_scalars epoch acc loss eacc eloss st = Inr st'"
  shows "\<exists>evs. st' = st\<lparr>t_events := t_events st @ evs\<rparr> \<and> filter is_sched evs = []
           \<and> filter is_save evs = [] \<and> filter is_opt_step evs = [] \<and> progress_of evs = []"
    and "2 \<le> length (t_groups st)"
  using assms by (auto simp: log_scalars_def split: if_splits)

lemma log_scalars_ok:
  "2 \<le> length (t_groups st) \<Longrightarrow> \<exists>st'. log_scalars epoch acc loss eacc eloss st = Inr st'"
  by (simp add: log_scalars_def)

lemma save_block_eq:
  "save_block epoch acc eacc st =
     st\<lparr>t_best_acc := max (max (t_best_acc st) acc) eacc,
        t_best_model := (if acc > t_best_acc st then Some (state_dict (t_net st)) else t_best_model st),
        t_best_model_ema := (if eacc > max (t_best_acc st) acc
                             then Some (state_dict (ema (t_ema st))) else t_best_model_ema st),
        t_events := t_events st @ (if acc > t_best_acc st then [SaveLive epoch] else [])
                      @ (if eacc > max (t_best_acc st) acc then [SaveEMA epoch] else [])\<rparr>"
  by (auto simp: save_block_def Let_def max_def)

lemma early_stop_block_eq:
  "early_stop_block epoch acc loss st =
     (if 0.8 * acc + 0.2 * (1 - loss) > t_best_metric st
      then (st\<lparr>t_best_metric := 0.8 * acc + 0.2 * (1 - loss), t_no_improve := 0\<rparr>, False)
      else if t_no_improve st + 1 \<ge> patience
      then (st\<lparr>t_no_improve := t_no_improve st + 1, t_events := t_events st @ [EarlyStop epoch]\<rparr>, True)
      else (st\<lparr>t_no_improve := t_no_improve st + 1\<rparr>, False))"
  by (simp add: early_stop_block_def Let_def mult.commute)

lemma epoch_front_Inr:
  assumes "epoch_front T train_iter test_iter dev a epoch st = Inr (st2, acc, loss, eacc, eloss)"
  shows "frame st2 = frame st"
    and "filter is_sched (t_events st2) = filter is_sched (t_events st)"
    and "filter is_save (t_events st2) = filter is_save (t_events st)"
proof -
  from assms obtain st1 where 1: "epoch_batches T a epoch st train_iter = Inr st1"
    and 2: "validate T dev st1 test_iter = Inr (st2, acc, loss, eacc, eloss)"
    by (auto simp: epoch_front_def split: sum.splits)
  from validate_Inr(1)[OF 2] have st2: "st2 = st1\<lparr>t_net := (t_net st1)\<lparr>training := False\<rparr>\<rparr>" .
  from epoch_batches_Inr(1)[OF 1] show "frame st2 = frame st" by (simp add: st2 frame_def)
  from epoch_batches_Inr(3,4)[OF 1]
  show "filter is_sched (t_events st2) = filter is_sched (t_events st)"
    and "filter is_save (t_events st2) = filter is_save (t_events st)"
    by (simp_all add: st2)
qed

lemma epoch_body_Inr:
  assumes "epoch_body T train_iter test_iter dev a epoch st = Inr (st', stop)"
  shows "\<exists>st2 acc loss eacc eloss st3.
           epoch_front T train_iter test_iter dev a epoch st = Inr (st2, acc, loss, eacc, eloss)
         \<and> log_scalars epoch acc loss eacc eloss (schedule_block T epoch acc st2) = Inr st3
         \<and> early_stop_block epoch acc loss (save_block epoch acc eacc st3) = (st', stop)"
  using assms by (auto simp: epoch_body_def split: sum.splits prod.splits)

lemma samples_pos:
  "train_iter \<noteq> [] \<Longrightarrow> \<forall>b\<in>set train_iter. snd b \<noteq> [] \<Longrightarrow> samples train_iter \<noteq> 0"
  by (cases train_iter) (auto simp: samples_def)

lemma shapes_Nil: "shapes model = [] \<longleftrightarrow> params model = []"
  by (simp add: shapes_def)

lemma trainable_mode: "trainable (model\<lparr>training := b\<rparr>) = trainable model"
  by (simp add: trainable_def)

lemma epoch_body_ok:
  assumes al: "tracker_aligned st" and tn: "trainable (t_net st)"
    and sc: "scalar_ok T accum_steps" and a: "accum_steps \<noteq> 0"
    and ne: "\<forall>b\<in>set train_iter. snd b \<noteq> []" and tr: "train_iter \<noteq> []"
    and te: "samples test_iter \<noteq> 0"
    and dv: "dev \<noteq> None \<or> params (t_net st) \<noteq> []"
    and gs: "2 \<le> length (t_groups st)"
  shows "\<exists>st' stop. epoch_body T train_iter test_iter dev accum_steps epoch st = Inr (st', stop)
           \<and> tracker_aligned st' \<and> shapes (t_net st') = shapes (t_net st)
           \<and> trainable (t_net st')
           \<and> length (t_groups st') = length (t_groups st)"
proof -
  from epoch_batches_aligned [OF al tn sc a ne, of epoch] obtain st1 where
    1: "epoch_batches T accum_steps epoch st train_iter = Inr st1" and al1: "tracker_aligned st1"
    and sh1: "shapes (t_net st1) = shapes (t_net st)" and tn1: "trainable (t_net st1)" by blast
  from epoch_batches_Inr(5)[OF 1] have "t_n st1 = samples train_iter" by blast
  with samples_pos [OF tr ne] have n1: "t_n st1 \<noteq> 0" by simp
  from dv sh1 have dv1: "dev \<noteq> None \<or> params (t_net st1) \<noteq> []"
    by (metis shapes_Nil)
  let ?st2 = "st1\<lparr>t_net := (t_net st1)\<lparr>training := False\<rparr>\<rparr>"
  from validate_ok [OF dv1 te n1, of T] obtain acc loss eacc eloss where
    2: "validate T dev st1 test_iter = Inr (?st2, acc, loss, eacc, eloss)" by blast
  from 1 2 have front: "epoch_front T train_iter test_iter dev accum_steps epoch st
      = Inr (?st2, acc, loss, eacc, eloss)"
    by (simp add: epoch_front_def)
  from epoch_front_Inr(1)[OF front] have g2: "t_groups ?st2 = t_groups st"
    by (simp add: frame_def)
  let ?st2' = "schedule_block T epoch acc ?st2"
  have len: "length (t_groups ?st2') = length (t_groups st)"
    using g2 by (simp add: schedule_block_keeps(7))
  with gs log_scalars_ok [of ?st2' epoch acc loss eacc eloss] obtain st3 where
    3: "log_scalars epoch acc loss eacc eloss ?st2' = Inr st3" by auto
  from log_scalars_Inr(1)[OF 3] obtain evs where st3: "st3 = ?st2'\<lparr>t_events := t_events ?st2' @ evs\<rparr>"
    by blast
  obtain st' stop where 4: "early_stop_block epoch acc loss (save_block epoch acc eacc st3) = (st', stop)"
    by (cases "early_stop_block epoch acc loss (save_block epoch acc eacc st3)")
  from front 3 4 have body: "epoch_body T train_iter test_iter dev accum_steps epoch st = Inr (st', stop)"
    by (simp add: epoch_body_def)
  from 4 have keep: "t_net st' = t_net st3" "t_ema st' = t_ema st3" "t_groups st' = t_groups st3"
    by (auto simp: early_stop_block_eq save_block_eq split: if_splits)
  have net3: "t_net st3 = t_net ?st2" and ema3: "t_ema st3 = t_ema ?st2"
    and g3: "t_groups st3 = t_groups ?st2'"
    by (simp_all add: st3 schedule_block_keeps)
  from al1 sh1 have "tracker_aligned st'" "shapes (t_net st') = shapes (t_net st)"
    by (simp_all add: keep net3 ema3 tracker_aligned_def shapes_def)
  moreover from tn1 have "trainable (t_net st')"
    by (simp add: keep net3 trainable_mode)
  moreover have "length (t_groups st') = length (t_groups st)"
    by (simp add: keep g3 len)
  ultimately show ?thesis using body by blast
qed

lemma train_epochs_ok:
  assumes sc: "scalar_ok T accum_steps" and a: "accum_steps \<noteq> 0"
    and ne: "\<forall>b\<in>set train_iter. snd b \<noteq> []" and tr: "train_iter \<noteq> []"
    and te: "samples test_iter \<noteq> 0"
  shows "tracker_aligned st \<Longrightarrow> trainable (t_net st) \<Longrightarrow> dev \<noteq> None \<or> params (t_net st) \<noteq> [] \<Longrightarrow>
    2 \<le> length (t_groups st) \<Longrightarrow>
    \<exists>st'. train_epochs T train_iter test_iter dev accum_steps es st = Inr st'"
proof (induction es arbitrary: st)
  case Nil
  then show ?case by simp
next
  case (Cons epoch es)
  from epoch_body_ok [OF Cons.prems(1,2) sc a ne tr te Cons.prems(3,4), of epoch] obtain st1 stop where
    1: "epoch_body T train_iter test_iter dev accum_steps epoch st = Inr (st1, stop)"
    and al: "tracker_aligned st1" and sh: "shapes (t_net st1) = shapes (t_net st)"
    and tn: "trainable (t_net st1)"
    and len: "length (t_groups st1) = length (t_groups st)" by blast
  from Cons.prems(3) sh have dv: "dev \<noteq> None \<or> params (t_net st1) \<noteq> []"
    by (metis shapes_Nil)
  from Cons.IH [OF al tn dv] len Cons.prems(4) obtain st' where
    "train_epochs T train_iter test_iter dev accum_steps es st1 = Inr st'" by auto
  with 1 show ?case by simp
qed

lemma train_run_unfold:
  "train_run T w gs train_iter test_iter model dev num_epochs best_acc accum_steps =
     train_epochs T train_iter test_iter dev accum_steps [0..<num_epochs]
       \<lparr>t_net = to_device model dev,
        t_ema = \<lparr>ema = \<lparr>params = map (\<lambda>p. p\<lparr>requires_grad := False\<rparr>) (params (to_device model dev)),
                        training = False\<rparr>,
                 initial_decay = 0.999, min_decay = 0.995, total_epochs = 50\<rparr>,
        t_world = w, t_groups = gs,
        t_base_lrs = None, t_best_acc = best_acc, t_best_metric = 0, t_no_improve = 0,
        t_current_scheduler = ''cosine'', t_train_l_sum = 0, t_train_acc_sum = 0, t_n = 0,
        t_best_model = None, t_best_model_ema = None, t_events = []\<rparr>"
  by (simp add: train_run_def ModelEMA_init_eq)

lemma params_to_device_Nil: "params (to_device model dev) = [] \<longleftrightarrow> params model = []"
  by (simp add: to_device_def split: option.splits)

lemma trainable_to_device: "trainable (to_device model dev) = trainable model"
  by (auto simp: trainable_def to_device_def list_ex_iff split: option.splits)

lemma train_run_ok:
  assumes "scalar_ok T accum_steps" and "accum_steps \<noteq> 0"
    and "\<forall>b\<in>set train_iter. snd b \<noteq> []" and "train_iter \<noteq> []"
    and "samples test_iter \<noteq> 0" and "trainable model" and "2 \<le> length gs"
  shows "\<exists>st'. train_run T w gs train_iter test_iter model dev num_epochs best_acc accum_steps = Inr st'"
proof -
  let ?st = "\<lparr>t_net = to_device model dev,
        t_ema = \<lparr>ema = \<lparr>params = map (\<lambda>p. p\<lparr>requires_grad := False\<rparr>) (params (to_device model dev)),
                        training = False\<rparr>,
                 initial_decay = 0.999, min_decay = 0.995, total_epochs = 50\<rparr>,
        t_world = w, t_groups = gs,
        t_base_lrs = None, t_best_acc = best_acc, t_best_metric = 0, t_no_improve = 0,
        t_current_scheduler = ''cosine'', t_train_l_sum = 0, t_train_acc_sum = 0, t_n = 0,
        t_best_model = None, t_best_model_ema = None, t_events = []\<rparr>"
  have al: "tracker_aligned ?st"
    by (simp add: tracker_aligned_def shapes_def comp_def)
  from assms(6) have tn: "trainable (t_net ?st)"
    by (simp add: trainable_to_device)
  then have "params (t_net ?st) \<noteq> []"
    by (auto simp: trainable_def)
  then have dv: "dev \<noteq> None \<or> params (t_net ?st) \<noteq> []" by blast
  from assms(7) have g: "2 \<le> length (t_groups ?st)" by simp
  from train_epochs_ok [OF assms(1-5) al tn dv g] show ?thesis
    unfolding train_run_unfold .
qed

lemma epoch_body_effects:
  assumes "epoch_body T train_iter test_iter dev a epoch st = Inr (st', stop)"
  shows "\<exists>st2 acc loss eacc eloss.
           epoch_front T train_iter test_iter dev a epoch st = Inr (st2, acc, loss, eacc, eloss)
         \<and> t_groups st' = t_groups (schedule_block T epoch acc st2)
         \<and> t_base_lrs st' = t_base_lrs (schedule_block T epoch acc st2)
         \<and> filter is_sched (t_events st') = filter is_sched (t_events st) @ [sched_event epoch acc]
         \<and> filter is_save (t_events st') = filter is_save (t_events st)
              @ (if acc > t_best_acc st then [SaveLive epoch] else [])
              @ (if eacc > max (t_best_acc st) acc then [SaveEMA epoch] else [])
         \<and> t_best_acc st' = max (max (t_best_acc st) acc) eacc"
proof -
  from epoch_body_Inr [OF assms] obtain st2 acc loss eacc eloss st3 where
    front: "epoch_front T train_iter test_iter dev a epoch st = Inr (st2, acc, loss, eacc, eloss)"
    and log: "log_scalars epoch acc loss eacc eloss (schedule_block T epoch acc st2) = Inr st3"
    and fin: "early_stop_block epoch acc loss (save_block epoch acc eacc st3) = (st', stop)"
    by blast
  let ?sb = "schedule_block T epoch acc st2"
  from log_scalars_Inr(1)[OF log] obtain evs where st3: "st3 = ?sb\<lparr>t_events := t_events ?sb @ evs\<rparr>"
    and evs: "filter is_sched evs = []" "filter is_save evs = []" by blast
  from epoch_front_Inr [OF front] have fr: "frame st2 = frame st"
    and e2: "filter is_sched (t_events st2) = filter is_sched (t_events st)"
            "filter is_save (t_events st2) = filter is_save (t_events st)" by simp_all
  from fr have b2: "t_best_acc st2 = t_best_acc st" by (simp add: frame_def)
  have sched_ev: "is_sched (sched_event epoch acc)" "\<not> is_save (sched_event epoch acc)"
    by (simp_all add: sched_event_def)
  from fin have
    "t_groups st' = t_groups ?sb" "t_base_lrs st' = t_base_lrs ?sb"
    "filter is_sched (t_events st') = filter is_sched (t_events st) @ [sched_event epoch acc]"
    "filter is_save (t_events st') = filter is_save (t_events st)
              @ (if acc > t_best_acc st then [SaveLive epoch] else [])
              @ (if eacc > max (t_best_acc st) acc then [SaveEMA epoch] else [])"
    "t_best_acc st' = max (max (t_best_acc st) acc) eacc"
    by (auto simp: early_stop_block_eq save_block_eq st3 evs e2 b2 sched_ev
          schedule_block_events schedule_block_keeps split: if_splits)
  with front show ?thesis by blast
qed

lemma train_epochs_best:
  "train_epochs T train_iter test_iter dev a es st = Inr st' \<Longrightarrow> t_best_acc st \<le> t_best_acc st'"
proof (induction es arbitrary: st)
  case Nil
  then show ?case by simp
next
  case (Cons epoch es)
  from Cons.prems obtain st1 stop where
    1: "epoch_body T train_iter test_iter dev a epoch st = Inr (st1, stop)"
    and 2: "if stop then st' = st1 else train_epochs T train_iter test_iter dev a es st1 = Inr st'"
    by (auto split: sum.splits if_splits)
  from epoch_body_effects [OF 1] have le1: "t_best_acc st \<le> t_best_acc st1" by auto
  show ?case
  proof (cases stop)
    case True
    with 2 le1 show ?thesis by simp
  next
    case False
    with 2 Cons.IH have "t_best_acc st1 \<le> t_best_acc st'" by simp
    with le1 show ?thesis by simp
  qed
qed

lemma train_epochs_sched:
  "train_epochs T train_iter test_iter dev a es st = Inr st' \<Longrightarrow>
   \<exists>accs. length accs \<le> length es
     \<and> filter is_sched (t_events st') = filter is_sched (t_events st) @ map2 sched_event es accs"
proof (induction es arbitrary: st)
  case Nil
  then show ?case by simp
next
  case (Cons epoch es)
  from Cons.prems obtain st1 stop where
    1: "epoch_body T train_iter test_iter dev a epoch st = Inr (st1, stop)"
    and 2: "if stop then st' = st1 else train_epochs T train_iter test_iter dev a es st1 = Inr st'"
    by (auto split: sum.splits if_splits)
  from epoch_body_effects [OF 1] obtain acc where
    ev1: "filter is_sched (t_events st1) = filter is_sched (t_events st) @ [sched_event epoch acc]"
    by auto
  show ?case
  proof (cases stop)
    case True
    with 2 ev1 have "length [acc] \<le> length (epoch # es)
      \<and> filter is_sched (t_events st') = filter is_sched (t_events st) @ map2 sched_event (epoch # es) [acc]"
      by simp
    then show ?thesis by blast
  next
    case False
    with 2 Cons.IH obtain accs where "length accs \<le> length es"
      "filter is_sched (t_events st') = filter is_sched (t_events st1) @ map2 sched_event es accs"
      by auto
    with ev1 have "length (acc # accs) \<le> length (epoch # es)
      \<and> filter is_sched (t_events st') = filter is_sched (t_events st) @ map2 sched_event (epoch # es) (acc # accs)"
      by simp
    then show ?thesis by blast
  qed
qed

lemma train_batch_empty:
  assumes "tracker_aligned st"
  shows "train_batch T a N epoch st (i, X, []) =
           Inl (if scalar_ok T a \<and> trainable (t_net st) then ZeroDivisionError else RuntimeError)"
proof -
  let ?st1 = "st\<lparr>t_world := backward T (t_world st) (t_net st) X []
      (loss_fn T (forward T (t_world st) (t_net st) X) [] / real_of_int a)\<rparr>"
  from assms have al: "tracker_aligned ?st1" by (simp add: tracker_aligned_def)
  from step_block_aligned [OF al, of T epoch i] obtain st2 where
    "step_block T epoch i ?st1 = Inr st2" by blast
  then show ?thesis
    by (simp add: train_batch_def Let_def)
qed

lemma samples_zero_Cons: "samples ((X, y) # bs) = 0 \<longleftrightarrow> y = [] \<and> samples bs = 0"
  by (simp add: samples_def)

lemma epoch_front_no_samples:
  assumes al: "tracker_aligned st" and z: "samples train_iter = 0"
  shows "epoch_front T train_iter test_iter dev a epoch st =
           Inl (if train_iter = []
                then (if dev = None \<and> params (t_net st) = [] then StopIteration
                      else ZeroDivisionError)
                else if scalar_ok T a \<and> trainable (t_net st) then ZeroDivisionError
                else RuntimeError)"
proof (cases train_iter)
  case Nil
  let ?st0 = "st\<lparr>t_net := (t_net st)\<lparr>training := True\<rparr>,
           t_train_l_sum := 0, t_train_acc_sum := 0, t_n := 0\<rparr>"
  have eb: "epoch_batches T a epoch st train_iter = Inr ?st0"
    by (simp add: Nil epoch_batches_def)
  have "validate T dev ?st0 test_iter =
      Inl (if dev = None \<and> params (t_net st) = [] then StopIteration else ZeroDivisionError)"
    by (auto simp: validate_def evaluate_accuracy_cases train_metrics_def Let_def
             split: sum.splits prod.splits)
  with eb show ?thesis by (simp add: epoch_front_def Nil)
next
  case (Cons b bs)
  obtain X y where b: "b = (X, y)" by (cases b)
  from z have y: "y = []" by (simp add: Cons b samples_zero_Cons)
  let ?st0 = "st\<lparr>t_net := (t_net st)\<lparr>training := True\<rparr>,
           t_train_l_sum := 0, t_train_acc_sum := 0, t_n := 0\<rparr>"
  from al have "tracker_aligned ?st0" by (simp add: tracker_aligned_def shapes_def)
  from train_batch_empty [OF this, of T a "length train_iter" epoch 0 X]
  have "epoch_batches T a epoch st train_iter =
      Inl (if scalar_ok T a \<and> trainable (t_net st) then ZeroDivisionError else RuntimeError)"
    by (simp add: epoch_batches_def Cons b y trainable_mode)
  then show ?thesis by (simp add: epoch_front_def Cons)
qed

lemma toy_batch_size: "length (snd (toy_batch k c)) = k"
  by (simp add: toy_batch_def)

lemma toy_batch_correct:
  assumes "c \<le> k"
  shows "num_correct (fst (toy_batch k c)) (snd (toy_batch k c)) = c"
proof -
  have a: "argmax [1, 0] = 0" by (simp add: argmax_def)
  from assms have "replicate k [1, 0::real] = replicate c [1, 0] @ replicate (k - c) [1, 0]"
    by (simp add: replicate_add [symmetric])
  then have "zip (replicate k [1, 0::real]) (replicate c 0 @ replicate (k - c) (1::nat))
      = replicate c ([1, 0], 0) @ replicate (k - c) ([1, 0], 1)"
    by simp
  with assms show ?thesis
    by (simp add: num_correct_def toy_batch_def a min_absorb1)
qed

lemma toy_forward: "forward toy_torch w model X = X"
  by (simp add: toy_torch_def)

lemma toy_loss: "loss_fn toy_torch output y = 1 - real (num_correct output y) / real (length y)"
  by (simp add: toy_torch_def)

lemma toy_batch_nonempty: "0 < k \<Longrightarrow> snd (toy_batch k c) \<noteq> []"
  using toy_batch_size [of k c] by auto

lemma toy_batch_samples: "samples [toy_batch k c] = k"
  by (simp add: samples_def toy_batch_size)

lemma toy_state_aligned: "tracker_aligned toy_state"
  by (simp add: tracker_aligned_def toy_state_def toy_net_def shapes_def)

lemma toy_net_trainable: "trainable toy_net"
  by (simp add: trainable_def toy_net_def)

lemma toy_state_trainable: "trainable (t_net toy_state)"
  by (simp add: toy_state_def toy_net_trainable)

lemma toy_scalar_ok: "scalar_ok toy_torch 4"
  by (simp add: toy_torch_def)

lemma toy_state_groups: "2 \<le> length (t_groups toy_state)"
  by (simp add: toy_state_def toy_groups_def)

lemma toy_epoch_body_ok:
  assumes "tracker_aligned st" and "trainable (t_net st)" and "2 \<le> length (t_groups st)"
  shows "\<exists>st' stop. epoch_body toy_torch [toy_batch 2 1] [toy_batch 2 1] (Some CPU) 4 epoch st
             = Inr (st', stop)
           \<and> tracker_aligned st' \<and> shapes (t_net st') = shapes (t_net st)
           \<and> trainable (t_net st')
           \<and> length (t_groups st') = length (t_groups st)"
  by (rule epoch_body_ok [OF assms(1,2) toy_scalar_ok _ _ _ _ _ assms(3)])
     (simp_all add: toy_batch_nonempty toy_batch_samples)

lemma toy_train_run_ok:
  assumes "\<forall>b\<in>set train_iter. snd b \<noteq> []" and "train_iter \<noteq> []"
  shows "\<exists>st'. train_run toy_torch 0 toy_groups train_iter [toy_batch 2 1] toy_net (Some CPU)
           num_epochs 0 4 = Inr st'"
  by (rule train_run_ok [OF toy_scalar_ok _ assms _ toy_net_trainable])
     (simp_all add: toy_batch_samples toy_groups_def)

lemma epoch_body_opt_steps:
  assumes "epoch_body T train_iter test_iter dev a epoch st = Inr (st', stop)"
  shows "filter is_opt_step (t_events st') = filter is_opt_step (t_events st)
           @ map (OptStep epoch) (filter (step_due a (length train_iter)) [0..<length train_iter])"
proof -
  from epoch_body_Inr [OF assms] obtain st2 acc loss eacc eloss st3 where
    front: "epoch_front T train_iter test_iter dev a epoch st = Inr (st2, acc, loss, eacc, eloss)"
    and log: "log_scalars epoch acc loss eacc eloss (schedule_block T epoch acc st2) = Inr st3"
    and fin: "early_stop_block epoch acc loss (save_block epoch acc eacc st3) = (st', stop)"
    by blast
  from front obtain st1 where 1: "epoch_batches T a epoch st train_iter = Inr st1"
    and 2: "validate T dev st1 test_iter = Inr (st2, acc, loss, eacc, eloss)"
    by (auto simp: epoch_front_def split: sum.splits)
  from validate_Inr(1)[OF 2] have e2: "t_events st2 = t_events st1" by simp
  let ?sb = "schedule_block T epoch acc st2"
  from log_scalars_Inr(1)[OF log] obtain evs where st3: "st3 = ?sb\<lparr>t_events := t_events ?sb @ evs\<rparr>"
    and evs: "filter is_opt_step evs = []" by blast
  have "\<not> is_opt_step (sched_event epoch acc)" by (simp add: sched_event_def)
  with fin have "filter is_opt_step (t_events st') = filter is_opt_step (t_events st1)"
    by (auto simp: early_stop_block_eq save_block_eq st3 evs e2 schedule_block_events
          split: if_splits)
  with epoch_batches_Inr(2)[OF 1] show ?thesis by simp
qed

lemma train_epochs_opt_steps:
  "train_epochs T train_iter test_iter dev a es st = Inr st' \<Longrightarrow>
   \<exists>k\<le>length es. filter is_opt_step (t_events st') = filter is_opt_step (t_events st)
     @ concat (map (\<lambda>epoch. map (OptStep epoch)
                 (filter (step_due a (length train_iter)) [0..<length train_iter])) (take k es))"
proof (induction es arbitrary: st)
  case Nil
  then show ?case by simp
next
  case (Cons epoch es)
  from Cons.prems obtain st1 stop where
    1: "epoch_body T train_iter test_iter dev a epoch st = Inr (st1, stop)"
    and 2: "if stop then st' = st1 else train_epochs T train_iter test_iter dev a es st1 = Inr st'"
    by (auto split: sum.splits if_splits)
  note ev1 = epoch_body_opt_steps [OF 1]
  show ?case
  proof (cases stop)
    case True
    with 2 ev1 have "Suc 0 \<le> length (epoch # es) \<and>
      filter is_opt_step (t_events st') = filter is_opt_step (t_events st)
       @ concat (map (\<lambda>epoch. map (OptStep epoch)
                 (filter (step_due a (length train_iter)) [0..<length train_iter])) (take (Suc 0) (epoch # es)))"
      by simp
    then show ?thesis by blast
  next
    case False
    with 2 Cons.IH obtain k where "k \<le> length es"
      "filter is_opt_step (t_events st') = filter is_opt_step (t_events st1)
        @ concat (map (\<lambda>epoch. map (OptStep epoch)
                 (filter (step_due a (length train_iter)) [0..<length train_iter])) (take k es))"
      by auto
    with ev1 have "Suc k \<le> length (epoch # es) \<and>
      filter is_opt_step (t_events st') = filter is_opt_step (t_events st)
       @ concat (map (\<lambda>epoch. map (OptStep epoch)
                 (filter (step_due a (length train_iter)) [0..<length train_iter])) (take (Suc k) (epoch # es)))"
      by simp
    then show ?thesis by blast
  qed
qed

lemma due_4_10: "filter (\<lambda>i. (int i + 1) mod 4 = 0 \<or> i + 1 = 10) [0..<10] = [3, 7, 9]"
  by code_simp

lemma weighted_accuracy_sum:
  "(\<Sum>b\<leftarrow>bs. real (length (snd b)) * batch_accuracy T w model b)
     = (\<Sum>b\<leftarrow>bs. real (num_correct (forward T w model (fst b)) (snd b)))"
  by (simp add: weighted_accuracy)

lemma list_of_length_4: "length xs = 4 \<Longrightarrow> \<exists>a b c d. xs = [a, b, c, d]"
  by (auto simp: eval_nat_numeral length_Suc_conv)

lemma cosine_scheduler_step_lrs:
  "map lr (t_groups (cosine_scheduler_step T epoch st))
     = map (cosine_lr T (t_world st) epoch (t_groups st)) [0..<length (t_groups st)]"
proof -
  have "map lr (map (\<lambda>(i, g). g\<lparr>lr := f i\<rparr>) (enumerate k gs)) = map f [k..<k + length gs]"
    for f :: "nat \<Rightarrow> real" and k and gs :: "group list"
    by (induction gs arbitrary: k) (simp_all add: upt_rec)
  from this [of "cosine_lr T (t_world st) epoch (t_groups st)" 0 "t_groups st"]
  show ?thesis by (simp add: cosine_scheduler_step_def)
qed

lemma rebase_groups:
  "map initial_lr (t_groups (rebase st)) = map (\<lambda>g. Some (lr g)) (t_groups st)"
  "map lr (t_groups (rebase st)) = map lr (t_groups st)"
  "t_base_lrs (rebase st) = Some (map lr (t_groups st))"
  by (simp_all add: rebase_def comp_def)

lemma epoch_body_groups:
  assumes "epoch_body T train_iter test_iter dev a epoch st = Inr (st', stop)"
  shows "\<exists>st2 acc loss eacc eloss.
           epoch_front T train_iter test_iter dev a epoch st = Inr (st2, acc, loss, eacc, eloss)
         \<and> t_groups st2 = t_groups st \<and> t_base_lrs st2 = t_base_lrs st
         \<and> t_groups st' = t_groups (schedule_block T epoch acc st2)
         \<and> t_base_lrs st' = t_base_lrs (schedule_block T epoch acc st2)"
proof -
  from epoch_body_effects [OF assms] obtain st2 acc loss eacc eloss where
    front: "epoch_front T train_iter test_iter dev a epoch st = Inr (st2, acc, loss, eacc, eloss)"
    and g: "t_groups st' = t_groups (schedule_block T epoch acc st2)"
           "t_base_lrs st' = t_base_lrs (schedule_block T epoch acc st2)"
    by blast
  from epoch_front_Inr(1) [OF front] have "t_groups st2 = t_groups st" "t_base_lrs st2 = t_base_lrs st"
    by (simp_all add: frame_def)
  with front g show ?thesis by blast
qed

lemma cosine_handoff:
  assumes body: "epoch_body T train_iter test_iter dev a 11 st = Inr (sta, stop)"
    and front: "epoch_front T train_iter test_iter dev a 12 sta = Inr (stb, acc, loss, eacc, eloss)"
  shows "\<exists>w gs. length gs = length (t_groups stb)
     \<and> map lr (t_groups stb) = map (cosine_lr T w 11 gs) [0..<length gs]
     \<and> map initial_lr (t_groups (rebase stb)) = map (\<lambda>i. Some (cosine_lr T w 11 gs i)) [0..<length gs]
     \<and> t_base_lrs (rebase stb) = Some (map (cosine_lr T w 11 gs) [0..<length gs])"
proof -
  from epoch_body_groups [OF body] obtain st2 acc1 where
    g: "t_groups sta = t_groups (schedule_block T 11 acc1 st2)" by blast
  from epoch_front_Inr(1) [OF front] have gb: "t_groups stb = t_groups sta"
    by (simp add: frame_def)
  have sb: "t_groups (schedule_block T 11 acc1 st2) = t_groups (cosine_scheduler_step T 11 st2)"
    by (simp add: schedule_block_def)
  let ?w = "t_world st2" and ?gs = "t_groups st2"
  have lrs: "map lr (t_groups stb) = map (cosine_lr T ?w 11 ?gs) [0..<length ?gs]"
    by (simp add: gb g sb cosine_scheduler_step_lrs)
  then have len: "length ?gs = length (t_groups stb)"
    by (metis length_map length_upt minus_nat.diff_0)
  have "map initial_lr (t_groups (rebase stb)) = map (\<lambda>g. Some (lr g)) (t_groups stb)"
    by (rule rebase_groups)
  also have "\<dots> = map Some (map lr (t_groups stb))" by simp
  also have "\<dots> = map (\<lambda>i. Some (cosine_lr T ?w 11 ?gs i)) [0..<length ?gs]"
    by (simp only: lrs map_map comp_def)
  finally have ini: "map initial_lr (t_groups (rebase stb))
      = map (\<lambda>i. Some (cosine_lr T ?w 11 ?gs i)) [0..<length ?gs]" .
  have "t_base_lrs (rebase stb) = Some (map (cosine_lr T ?w 11 ?gs) [0..<length ?gs])"
    by (simp add: rebase_groups lrs)
  with len lrs ini show ?thesis by blast
qed

lemma train_batch_Inr_state:
  assumes "train_batch T a N epoch st (i, X, y) = Inr st'"
  shows "if (int i + 1) mod a = 0 \<or> i + 1 = N
         then t_net st' = optimizer_step T
                  (backward T (t_world st) (t_net st) X y
                     (loss_fn T (forward T (t_world st) (t_net st) X) y / real_of_int a))
                  (t_groups st) (t_net st)
            \<and> t_world st' = step_next T
                  (backward T (t_world st) (t_net st) X y
                     (loss_fn T (forward T (t_world st) (t_net st) X) y / real_of_int a))
                  (t_groups st) (t_net st)
            \<and> update (t_ema st)
                  (optimizer_step T
                     (backward T (t_world st) (t_net st) X y
                        (loss_fn T (forward T (t_world st) (t_net st) X) y / real_of_int a))
                     (t_groups st) (t_net st))
                  (int epoch) = Inr (t_ema st', t_net st')
         else t_net st' = t_net st \<and> t_ema st' = t_ema st
            \<and> t_world st' = backward T (t_world st) (t_net st) X y
                  (loss_fn T (forward T (t_world st) (t_net st) X) y / real_of_int a)"
proof (cases "(int i + 1) mod a = 0 \<or> i + 1 = N")
  case True
  let ?w = "backward T (t_world st) (t_net st) X y
      (loss_fn T (forward T (t_world st) (t_net st) X) y / real_of_int a)"
  let ?st1 = "st\<lparr>t_world := ?w\<rparr>"
  from assms True obtain st2 where sb: "step_block T epoch i ?st1 = Inr st2"
    and keep: "t_net st' = t_net st2" "t_ema st' = t_ema st2" "t_world st' = t_world st2"
    by (auto simp: train_batch_def Let_def split: sum.splits if_splits)
  from sb obtain tracker model where
    u: "update (t_ema st) (optimizer_step T ?w (t_groups st) (t_net st)) (int epoch) = Inr (tracker, model)"
    and st2: "t_net st2 = model" "t_ema st2 = tracker"
             "t_world st2 = step_next T ?w (t_groups st) (t_net st)"
    by (auto simp: step_block_def Let_def split: sum.splits)
  from update_keeps_model [OF u] have "model = optimizer_step T ?w (t_groups st) (t_net st)" .
  with u st2 keep True show ?thesis by simp
next
  case False
  with assms show ?thesis
    by (auto simp: train_batch_def Let_def split: sum.splits if_splits)
qed

lemma run_batches_refines:
  "run_batches T a N epoch st ibs = Inr st' \<Longrightarrow>
   spec_accumulation T a N epoch (t_groups st) (t_net st, t_ema st, t_world st) ibs
     = Inr (t_net st', t_ema st', t_world st')"
proof (induction ibs arbitrary: st)
  case Nil
  then show ?case by simp
next
  case (Cons ib ibs)
  obtain i X y where ib: "ib = (i, X, y)" by (cases ib)
  from Cons.prems obtain st1 where 1: "train_batch T a N epoch st (i, X, y) = Inr st1"
    and 2: "run_batches T a N epoch st1 ibs = Inr st'"
    by (auto simp: ib split: sum.splits)
  from train_batch_Inr(1) [OF 1] have g: "t_groups st1 = t_groups st"
    by (simp add: frame_def)
  from Cons.IH [OF 2] have rest: "spec_accumulation T a N epoch (t_groups st)
      (t_net st1, t_ema st1, t_world st1) ibs = Inr (t_net st', t_ema st', t_world st')"
    by (simp add: g)
  show ?case
  proof (cases "(int i + 1) mod a = 0 \<or> i + 1 = N")
    case True
    with train_batch_Inr_state [OF 1] rest show ?thesis
      by (simp add: ib Let_def)
  next
    case False
    with train_batch_Inr_state [OF 1] rest show ?thesis
      by (simp add: ib Let_def)
  qed
qed

lemma run_batches_append:
  "run_batches T a N epoch st (xs @ ys) =
     (case run_batches T a N epoch st xs of
        Inl e \<Rightarrow> Inl e
      | Inr st1 \<Rightarrow> run_batches T a N epoch st1 ys)"
  by (induction xs arbitrary: st) (simp_all split: sum.splits)

lemma epoch_batches_flush:
  assumes eb: "epoch_batches T a epoch st train_iter = Inr st'" and ne: "train_iter \<noteq> []"
  shows "\<exists>w m tracker. t_net st' = optimizer_step T w (t_groups st) m
           \<and> t_world st' = step_next T w (t_groups st) m
           \<and> update tracker (t_net st') (int epoch) = Inr (t_ema st', t_net st')"
proof -
  let ?st0 = "st\<lparr>t_net := (t_net st)\<lparr>training := True\<rparr>,
           t_train_l_sum := 0, t_train_acc_sum := 0, t_n := 0\<rparr>"
  let ?N = "length train_iter"
  from ne obtain xs x where ti: "train_iter = xs @ [x]"
    by (metis append_butlast_last_id)
  obtain X y where x: "x = (X, y)" by (cases x)
  have en: "enumerate 0 train_iter = enumerate 0 xs @ [(length xs, X, y)]"
    by (simp add: ti x enumerate_append_eq)
  from eb have "run_batches T a ?N epoch ?st0 (enumerate 0 xs @ [(length xs, X, y)]) = Inr st'"
    by (simp add: epoch_batches_def en)
  then obtain st1 where 1: "run_batches T a ?N epoch ?st0 (enumerate 0 xs) = Inr st1"
    and 2: "train_batch T a ?N epoch st1 (length xs, X, y) = Inr st'"
    by (auto simp: run_batches_append split: sum.splits)
  from run_batches_Inr_frame [OF 1] have g: "t_groups st1 = t_groups st"
    by (simp add: frame_def)
  have due: "(int (length xs) + 1) mod a = 0 \<or> length xs + 1 = ?N"
    by (simp add: ti)
  define w where "w = backward T (t_world st1) (t_net st1) X y
      (loss_fn T (forward T (t_world st1) (t_net st1) X) y / real_of_int a)"
  from due train_batch_Inr_state [OF 2]
  have r: "t_net st' = optimizer_step T w (t_groups st) (t_net st1)
         \<and> t_world st' = step_next T w (t_groups st) (t_net st1)
         \<and> update (t_ema st1) (optimizer_step T w (t_groups st) (t_net st1)) (int epoch)
             = Inr (t_ema st', t_net st')"
    unfolding w_def g [symmetric] by (simp only: if_True)
  then show ?thesis
    by (intro exI [of _ w] exI [of _ "t_net st1"] exI [of _ "t_ema st1"]) simp
qed

lemma epoch_batches_refines:
  assumes "epoch_batches T a epoch st train_iter = Inr st'"
  shows "spec_accumulation T a (length train_iter) epoch (t_groups st)
           ((t_net st)\<lparr>training := True\<rparr>, t_ema st, t_world st) (enumerate 0 train_iter)
         = Inr (t_net st', t_ema st', t_world st')"
  using run_batches_refines [OF assms [unfolded epoch_batches_def]] by simp

lemma toy_backward: "backward toy_torch w model X y l = Suc w"
  by (simp add: toy_torch_def)

lemma toy_step_next: "step_next toy_torch w gs model = 0"
  by (simp add: toy_torch_def)

lemma toy_optimizer_step:
  "optimizer_step toy_torch w gs
     \<lparr>params = [\<lparr>data = [a, b], requires_grad = True, pdevice = CPU\<rparr>], training = True\<rparr>
   = \<lparr>params = [\<lparr>data = [a / 2, b / 2], requires_grad = True, pdevice = CPU\<rparr>], training = True\<rparr>"
proof -
  have "[0..<2] = [0, Suc 0]" by (simp add: upt_rec)
  then show ?thesis
    by (simp add: optimizer_step_def toy_torch_def)
qed

lemma toy_update:
  "update \<lparr>ema = \<lparr>params = [\<lparr>data = [c, d], requires_grad = True, pdevice = CPU\<rparr>],
                    training = False\<rparr>,
            initial_decay = 0.999, min_decay = 0.995, total_epochs = 50\<rparr>
      \<lparr>params = [\<lparr>data = [a, b], requires_grad = True, pdevice = CPU\<rparr>], training = True\<rparr> 0
   = Inr (\<lparr>ema = \<lparr>params = [\<lparr>data = [c * 0.999 + 0.001 * a, d * 0.999 + 0.001 * b],
                                requires_grad = True, pdevice = CPU\<rparr>],
                     training = False\<rparr>,
            initial_decay = 0.999, min_decay = 0.995, total_epochs = 50\<rparr>,
          \<lparr>params = [\<lparr>data = [a, b], requires_grad = True, pdevice = CPU\<rparr>], training = True\<rparr>)"
  by (simp add: update_def current_decay_def ema_step_def broadcast_def Let_def)

section \<open>The claims\<close>

subsection \<open>C1: streams without samples\<close>

text \<open>
  C1, as stated, asks for a dedicated empty-stream error instead of a raw division by
  zero. The source has no such guard: on a validation stream without samples
  \<^verbatim>\<open>evaluate_accuracy\<close> raises Python's ZeroDivisionError at \<^verbatim>\<open>acc_sum / n\<close>, and so does
  \<^verbatim>\<open>train\<close> on a training stream without samples.
\<close>

theorem empty_stream_counterexample:
  "evaluate_accuracy toy_torch 0 [] toy_net (Some CPU) True (Some (t_ema toy_state)) = Inl ZeroDivisionError
   \<and> train toy_torch 0 toy_groups [] [toy_batch 2 1] toy_net (Some CPU) 1 0 4 = Inl ZeroDivisionError"
  by (simp add: evaluate_accuracy_def train_def train_run_unfold epoch_body_def epoch_front_def
        epoch_batches_def validate_def train_metrics_def toy_batch_def toy_torch_def
        num_correct_def argmax_def Let_def)

text \<open>
  C1, amended. For every stream that yields zero samples, \<^verbatim>\<open>evaluate_accuracy\<close> (once
  the device and the model are resolved) raises ZeroDivisionError at its final division.
  \<^verbatim>\<open>train\<close> with at least one epoch on a training stream that yields zero samples always
  raises in its first epoch and returns no NaN. When the stream has no batch, it raises
  ZeroDivisionError (StopIteration when there is neither a device nor a parameter). When
  the stream has batches, all of them empty, the first batch raises: ZeroDivisionError
  (at line 231, or at line 222 when \<^verbatim>\<open>accum_steps\<close> is zero) if the network has a
  parameter that requires a gradient and \<^verbatim>\<open>accum_steps\<close> is an integer the library takes
  as a scalar, and the library's RuntimeError (from the division of line 216 or from
  \<^verbatim>\<open>backward()\<close> at line 219) otherwise; the forward pass and the loss are the
  collaborators' functions, which return on an empty batch. No dedicated empty-stream
  error exists.
\<close>

theorem empty_stream_raises:
  "(samples data_iter = 0 \<and> (dev \<noteq> None \<or> params net \<noteq> []) \<and> (use_ema \<longrightarrow> ema_model \<noteq> None)
      \<longrightarrow> evaluate_accuracy T w data_iter net dev use_ema ema_model = Inl ZeroDivisionError)
   \<and> (samples train_iter = 0 \<and> 0 < num_epochs \<longrightarrow>
        train T w gs train_iter test_iter model dev num_epochs best_acc accum_steps =
          Inl (if train_iter = []
               then (if dev = None \<and> params model = [] then StopIteration
                     else ZeroDivisionError)
               else if scalar_ok T accum_steps \<and> trainable model then ZeroDivisionError
               else RuntimeError))"
proof (intro conjI impI)
  assume "samples data_iter = 0 \<and> (dev \<noteq> None \<or> params net \<noteq> []) \<and> (use_ema \<longrightarrow> ema_model \<noteq> None)"
  then show "evaluate_accuracy T w data_iter net dev use_ema ema_model = Inl ZeroDivisionError"
    by (auto simp: evaluate_accuracy_cases)
next
  assume h: "samples train_iter = 0 \<and> 0 < num_epochs"
  let ?st0 = "\<lparr>t_net = to_device model dev,
        t_ema = \<lparr>ema = \<lparr>params = map (\<lambda>p. p\<lparr>requires_grad := False\<rparr>) (params (to_device model dev)),
                        training = False\<rparr>,
                 initial_decay = 0.999, min_decay = 0.995, total_epochs = 50\<rparr>,
        t_world = w, t_groups = gs,
        t_base_lrs = None, t_best_acc = best_acc, t_best_metric = 0, t_no_improve = 0,
        t_current_scheduler = ''cosine'', t_train_l_sum = 0, t_train_acc_sum = 0, t_n = 0,
        t_best_model = None, t_best_model_ema = None, t_events = []\<rparr>"
  let ?e = "if train_iter = []
               then (if dev = None \<and> params model = [] then StopIteration
                     else ZeroDivisionError)
               else if scalar_ok T accum_steps \<and> trainable model then ZeroDivisionError
               else RuntimeError"
  have al: "tracker_aligned ?st0"
    by (simp add: tracker_aligned_def shapes_def comp_def)
  from h have z: "samples train_iter = 0" by simp
  have "epoch_front T train_iter test_iter dev accum_steps 0 ?st0 = Inl ?e"
    using epoch_front_no_samples [OF al z, of T test_iter dev accum_steps 0]
    by (simp add: params_to_device_Nil trainable_to_device)
  then have "epoch_body T train_iter test_iter dev accum_steps 0 ?st0 = Inl ?e"
    by (simp add: epoch_body_def)
  moreover from h have "[0..<num_epochs] = 0 # [1..<num_epochs]"
    by (simp add: upt_conv_Cons)
  ultimately show "train T w gs train_iter test_iter model dev num_epochs best_acc accum_steps
            = Inl ?e"
    by (simp add: train_def train_run_unfold)
qed

text \<open>
  The amended C1 on a stream whose only batch is empty, with a network that can be
  trained and with a frozen one, and on a stream without a batch.
\<close>

theorem empty_stream_raises_witness:
  "evaluate_accuracy toy_torch 0 [toy_batch 0 0] toy_net None False None = Inl ZeroDivisionError
   \<and> train toy_torch 0 toy_groups [toy_batch 0 0] [toy_batch 2 1] toy_net None 3 0 4
        = Inl ZeroDivisionError
   \<and> train toy_torch 0 toy_groups [toy_batch 0 0] [toy_batch 2 1]
        \<lparr>params = [\<lparr>data = [2, 4], requires_grad = False, pdevice = CPU\<rparr>], training = True\<rparr>
        (Some CPU) 3 0 4
        = Inl RuntimeError
   \<and> train toy_torch 0 toy_groups [] [toy_batch 2 1]
        \<lparr>params = [\<lparr>data = [2, 4], requires_grad = False, pdevice = CPU\<rparr>], training = True\<rparr>
        (Some CPU) 3 0 4
        = Inl ZeroDivisionError"
  using empty_stream_raises [where data_iter = "[toy_batch 0 0]" and dev = None and net = toy_net
      and use_ema = False and ema_model = None and T = toy_torch and w = 0
      and train_iter = "[toy_batch 0 0]" and num_epochs = 3 and model = toy_net
      and gs = toy_groups and test_iter = "[toy_batch 2 1]" and best_acc = 0 and accum_steps = 4]
    empty_stream_raises [where dev = "Some CPU" and T = toy_torch and w = 0
      and train_iter = "[toy_batch 0 0]" and num_epochs = 3
      and model = "\<lparr>params = [\<lparr>data = [2, 4], requires_grad = False, pdevice = CPU\<rparr>], training = True\<rparr>"
      and gs = toy_groups and test_iter = "[toy_batch 2 1]" and best_acc = 0 and accum_steps = 4,
      THEN conjunct2]
    empty_stream_raises [where dev = "Some CPU" and T = toy_torch and w = 0
      and train_iter = "[]" and num_epochs = 3
      and model = "\<lparr>params = [\<lparr>data = [2, 4], requires_grad = False, pdevice = CPU\<rparr>], training = True\<rparr>"
      and gs = toy_groups and test_iter = "[toy_batch 2 1]" and best_acc = 0 and accum_steps = 4,
      THEN conjunct2]
  by (simp add: toy_batch_samples toy_net_trainable toy_scalar_ok trainable_def samples_def
        toy_net_def toy_batch_def)

subsection \<open>C2: the checkpoint policy\<close>

text \<open>
  C2, as stated, has two independent best-accuracy records. The source has one variable
  \<^verbatim>\<open>best_acc\<close> for both checks. From a best of 0, a live accuracy of 0.9 and a shadow
  accuracy of 0.8: the policy of the specification writes both checkpoints, the source
  writes the live one only, since 0.8 does not exceed the best that the live check has
  just raised to 0.9.
\<close>

theorem shared_best_counterexample:
  "snd (snd (spec_checkpoint_policy (0, 0) 0.9 0.8))
   \<and> filter is_save (t_events (save_block 0 0.9 0.8 toy_state)) = [SaveLive 0]
   \<and> t_best_model_ema (save_block 0 0.9 0.8 toy_state) = None"
  by (simp add: spec_checkpoint_policy_def save_block_def toy_state_def Let_def)

text \<open>
  C2, amended. The checkpoint policy keeps one best-accuracy record, shared by the live
  model and the shadow. In every epoch the live checkpoint is written exactly when the
  live validation accuracy strictly exceeds the shared best, which then becomes that
  accuracy; after that the shadow checkpoint is written exactly when the shadow's
  validation accuracy strictly exceeds the shared best as the live check left it, that is
  the larger of the previous best and the live accuracy. Both writes happen in the same
  epoch when the shadow beats the live model and the live model beats the previous best.
  The shared best never decreases: over one check, over one epoch, and from the
  \<^verbatim>\<open>best_acc\<close> passed to \<^verbatim>\<open>train\<close> to the value it returns.
\<close>

theorem checkpoint_policy_shared_best:
  "save_block epoch acc eacc st =
     st\<lparr>t_best_acc := max (max (t_best_acc st) acc) eacc,
        t_best_model := (if acc > t_best_acc st then Some (state_dict (t_net st)) else t_best_model st),
        t_best_model_ema := (if eacc > max (t_best_acc st) acc
                             then Some (state_dict (ema (t_ema st))) else t_best_model_ema st),
        t_events := t_events st @ (if acc > t_best_acc st then [SaveLive epoch] else [])
                      @ (if eacc > max (t_best_acc st) acc then [SaveEMA epoch] else [])\<rparr>
   \<and> t_best_acc st \<le> t_best_acc (save_block epoch acc eacc st)
   \<and> (epoch_body T train_iter test_iter dev a epoch st = Inr (st', stop) \<longrightarrow>
        (\<exists>st2 acc loss eacc eloss.
            epoch_front T train_iter test_iter dev a epoch st = Inr (st2, acc, loss, eacc, eloss)
          \<and> filter is_save (t_events st') = filter is_save (t_events st)
              @ (if acc > t_best_acc st then [SaveLive epoch] else [])
              @ (if eacc > max (t_best_acc st) acc then [SaveEMA epoch] else [])
          \<and> t_best_acc st' = max (max (t_best_acc st) acc) eacc)
        \<and> t_best_acc st \<le> t_best_acc st')
   \<and> (train T w gs train_iter test_iter model dev num_epochs best_acc a = Inr r \<longrightarrow> best_acc \<le> r)"
proof (intro conjI impI)
  show "save_block epoch acc eacc st =
     st\<lparr>t_best_acc := max (max (t_best_acc st) acc) eacc,
        t_best_model := (if acc > t_best_acc st then Some (state_dict (t_net st)) else t_best_model st),
        t_best_model_ema := (if eacc > max (t_best_acc st) acc
                             then Some (state_dict (ema (t_ema st))) else t_best_model_ema st),
        t_events := t_events st @ (if acc > t_best_acc st then [SaveLive epoch] else [])
                      @ (if eacc > max (t_best_acc st) acc then [SaveEMA epoch] else [])\<rparr>"
    by (rule save_block_eq)
  show "t_best_acc st \<le> t_best_acc (save_block epoch acc eacc st)"
    by (simp add: save_block_eq)
next
  assume body: "epoch_body T train_iter test_iter dev a epoch st = Inr (st', stop)"
  from epoch_body_effects [OF body]
  show "\<exists>st2 acc loss eacc eloss.
            epoch_front T train_iter test_iter dev a epoch st = Inr (st2, acc, loss, eacc, eloss)
          \<and> filter is_save (t_events st') = filter is_save (t_events st)
              @ (if acc > t_best_acc st then [SaveLive epoch] else [])
              @ (if eacc > max (t_best_acc st) acc then [SaveEMA epoch] else [])
          \<and> t_best_acc st' = max (max (t_best_acc st) acc) eacc"
    by blast
  from epoch_body_effects [OF body] show "t_best_acc st \<le> t_best_acc st'" by auto
next
  assume "train T w gs train_iter test_iter model dev num_epochs best_acc a = Inr r"
  then obtain st' where "train_run T w gs train_iter test_iter model dev num_epochs best_acc a = Inr st'"
    and r: "r = t_best_acc st'"
    by (auto simp: train_def split: sum.splits)
  from train_epochs_best [OF this(1)[unfolded train_run_unfold]] r
  show "best_acc \<le> r" by simp
qed

text \<open>
  The amended C2 where both checkpoints are written (best 0, live 0.5, shadow 0.6), and
  on an epoch and a run of the concrete instance.
\<close>

theorem checkpoint_policy_shared_best_witness:
  "filter is_save (t_events (save_block 0 0.5 0.6 toy_state)) = [SaveLive 0, SaveEMA 0]
   \<and> t_best_acc (save_block 0 0.5 0.6 toy_state) = 0.6
   \<and> (\<exists>st' stop. epoch_body toy_torch [toy_batch 2 1] [toy_batch 2 1] (Some CPU) 4 0 toy_state = Inr (st', stop)
         \<and> t_best_acc toy_state \<le> t_best_acc st')
   \<and> (\<exists>r. train toy_torch 0 toy_groups [toy_batch 2 1] [toy_batch 2 1] toy_net (Some CPU) 2 0 4 = Inr r
         \<and> 0 \<le> r)"
proof -
  have ne: "\<forall>b\<in>set [toy_batch 2 1]. snd b \<noteq> []" by (simp add: toy_batch_nonempty)
  have s: "samples [toy_batch 2 1] \<noteq> 0" by (simp add: toy_batch_samples)
  from toy_train_run_ok [of "[toy_batch 2 1]" 2] ne
  obtain st where "train_run toy_torch 0 toy_groups [toy_batch 2 1] [toy_batch 2 1] toy_net (Some CPU) 2 0 4 = Inr st"
    by auto
  then have tr: "train toy_torch 0 toy_groups [toy_batch 2 1] [toy_batch 2 1] toy_net (Some CPU) 2 0 4
      = Inr (t_best_acc st)"
    by (simp add: train_def)
  from toy_epoch_body_ok [OF toy_state_aligned toy_state_trainable toy_state_groups, of 0]
  obtain st' stop where eb: "epoch_body toy_torch [toy_batch 2 1] [toy_batch 2 1] (Some CPU) 4 0 toy_state = Inr (st', stop)"
    by blast
  note inst = checkpoint_policy_shared_best [where epoch = 0 and acc = "0.5" and eacc = "0.6"
      and st = toy_state and T = toy_torch and train_iter = "[toy_batch 2 1]"
      and test_iter = "[toy_batch 2 1]" and dev = "Some CPU" and a = 4 and st' = st' and stop = stop
      and w = 0 and gs = toy_groups and model = toy_net and num_epochs = 2 and best_acc = 0
      and r = "t_best_acc st"]
  have a: "filter is_save (t_events (save_block 0 0.5 0.6 toy_state)) = [SaveLive 0, SaveEMA 0]
     \<and> t_best_acc (save_block 0 0.5 0.6 toy_state) = 0.6"
    using inst by (simp add: toy_state_def)
  have b: "t_best_acc toy_state \<le> t_best_acc st'"
    using inst eb by simp
  have c: "0 \<le> t_best_acc st"
    using inst tr by simp
  from a b c tr eb show ?thesis by blast
qed

subsection \<open>C3: construction of the tracker\<close>

text \<open>
  C3, as stated, says that the construction fails for a model without trainable
  parameters. It does not: a model whose only parameter is frozen is copied like any
  other.
\<close>

theorem ModelEMA_init_frozen_counterexample:
  "ModelEMA_init \<lparr>params = [\<lparr>data = [1, 2], requires_grad = False, pdevice = CPU\<rparr>], training = True\<rparr> 0.999 50
     = Inr \<lparr>ema = \<lparr>params = [\<lparr>data = [1, 2], requires_grad = False, pdevice = CPU\<rparr>], training = False\<rparr>,
            initial_decay = 0.999, min_decay = 0.995, total_epochs = 50\<rparr>"
  by (simp add: ModelEMA_init_def deepcopy_def copy_tensor_def broadcast_def)

text \<open>
  C3, amended. \<^verbatim>\<open>ModelEMA.__init__\<close> succeeds for every model, with or without trainable
  parameters, and the shadow it creates is an exact value copy of all the parameters of
  the live model (same values, sizes and devices), with gradient tracking off, in eval
  mode, with the given decay and total epochs and the minimum decay 0.995.
\<close>

theorem ModelEMA_init_copies:
  "\<exists>tracker. ModelEMA_init model decay epochs = Inr tracker
     \<and> state_dict (ema tracker) = state_dict model
     \<and> shapes (ema tracker) = shapes model
     \<and> map requires_grad (params (ema tracker)) = replicate (length (params model)) False
     \<and> map pdevice (params (ema tracker)) = map pdevice (params model)
     \<and> training (ema tracker) = False
     \<and> initial_decay tracker = decay \<and> min_decay tracker = 0.995 \<and> total_epochs tracker = epochs"
  by (simp add: ModelEMA_init_eq state_dict_def shapes_def comp_def map_replicate_const)

subsection \<open>C4: where the optimizer steps\<close>

text \<open>
  C4. The optimizer-step block runs exactly at the batches whose index \<open>i\<close> has
  \<open>(i + 1) mod accum_steps = 0\<close> or \<open>i + 1 = N\<close>. Batch by batch: an iteration of the
  batch loop that returns has, at such an index, replaced the network by the optimizer's
  step on the gradients accumulated up to this batch, reset the accumulated gradients,
  and replaced the tracker by the result of its \<^verbatim>\<open>update\<close> on the stepped network with the
  index of the epoch; at any other index it has left the network and the tracker as they
  were and only accumulated the gradient of the batch. For an epoch over \<open>N\<close> batches,
  none of them empty, with \<open>accum_steps \<ge> 1\<close> a scalar of the library, a network with a
  trainable parameter and the shadow aligned with the network (as \<^verbatim>\<open>train\<close> keeps it),
  the batch loop completes; the block has run at exactly those indices, in order; the
  network, the tracker and the gradients it ends with are those of the accumulation loop
  as the specification words it; and the last thing done to them is a step, so that the
  gradients of a trailing partial window are applied, not discarded. A run of \<^verbatim>\<open>train\<close>
  that returns has stepped at those indices in each of its epochs. With
  \<open>accum_steps = 4\<close> and \<open>N = 10\<close> these are the indices 3, 7 and 9: after batches 4, 8
  and 10.
\<close>

theorem optimizer_step_boundaries:
  "(train_batch T accum_steps N epoch st (i, X, y) = Inr sta \<longrightarrow>
      (let accumulated = backward T (t_world st) (t_net st) X y
             (loss_fn T (forward T (t_world st) (t_net st) X) y / real_of_int accum_steps)
       in if (int i + 1) mod accum_steps = 0 \<or> i + 1 = N
          then t_net sta = optimizer_step T accumulated (t_groups st) (t_net st)
             \<and> t_world sta = step_next T accumulated (t_groups st) (t_net st)
             \<and> update (t_ema st) (optimizer_step T accumulated (t_groups st) (t_net st)) (int epoch)
                 = Inr (t_ema sta, t_net sta)
             \<and> filter is_opt_step (t_events sta)
                 = filter is_opt_step (t_events st) @ [OptStep epoch i]
          else t_net sta = t_net st \<and> t_ema sta = t_ema st \<and> t_world sta = accumulated
             \<and> filter is_opt_step (t_events sta) = filter is_opt_step (t_events st)))
   \<and> (1 \<le> accum_steps \<and> scalar_ok T accum_steps \<and> (\<forall>b\<in>set train_iter. snd b \<noteq> [])
        \<and> tracker_aligned st \<and> trainable (t_net st) \<longrightarrow>
      (\<exists>stb. epoch_batches T accum_steps epoch st train_iter = Inr stb
         \<and> filter is_opt_step (t_events stb) = filter is_opt_step (t_events st)
             @ map (OptStep epoch)
                 (filter (\<lambda>i. (int i + 1) mod accum_steps = 0 \<or> i + 1 = length train_iter)
                    [0..<length train_iter])
         \<and> spec_accumulation T accum_steps (length train_iter) epoch (t_groups st)
              ((t_net st)\<lparr>training := True\<rparr>, t_ema st, t_world st) (enumerate 0 train_iter)
             = Inr (t_net stb, t_ema stb, t_world stb)
         \<and> (train_iter \<noteq> [] \<longrightarrow>
              (\<exists>accumulated m tracker.
                  t_net stb = optimizer_step T accumulated (t_groups st) m
                \<and> t_world stb = step_next T accumulated (t_groups st) m
                \<and> update tracker (t_net stb) (int epoch) = Inr (t_ema stb, t_net stb)))))
   \<and> (train_run T w gs train_iter test_iter model dev num_epochs best_acc accum_steps = Inr final \<longrightarrow>
      (\<exists>k\<le>num_epochs. filter is_opt_step (t_events final)
         = concat (map (\<lambda>epoch. map (OptStep epoch)
                 (filter (\<lambda>i. (int i + 1) mod accum_steps = 0 \<or> i + 1 = length train_iter)
                    [0..<length train_iter])) [0..<k])))"
proof (intro conjI impI)
  assume tb: "train_batch T accum_steps N epoch st (i, X, y) = Inr sta"
  from train_batch_Inr(2) [OF tb]
  have ev: "filter is_opt_step (t_events sta) = filter is_opt_step (t_events st)
      @ (if (int i + 1) mod accum_steps = 0 \<or> i + 1 = N then [OptStep epoch i] else [])"
    by (auto simp: step_due_def)
  show "let accumulated = backward T (t_world st) (t_net st) X y
             (loss_fn T (forward T (t_world st) (t_net st) X) y / real_of_int accum_steps)
       in if (int i + 1) mod accum_steps = 0 \<or> i + 1 = N
          then t_net sta = optimizer_step T accumulated (t_groups st) (t_net st)
             \<and> t_world sta = step_next T accumulated (t_groups st) (t_net st)
             \<and> update (t_ema st) (optimizer_step T accumulated (t_groups st) (t_net st)) (int epoch)
                 = Inr (t_ema sta, t_net sta)
             \<and> filter is_opt_step (t_events sta)
                 = filter is_opt_step (t_events st) @ [OptStep epoch i]
          else t_net sta = t_net st \<and> t_ema sta = t_ema st \<and> t_world sta = accumulated
             \<and> filter is_opt_step (t_events sta) = filter is_opt_step (t_events st)"
  proof (cases "(int i + 1) mod accum_steps = 0 \<or> i + 1 = N")
    case True
    with train_batch_Inr_state [OF tb] ev show ?thesis
      unfolding Let_def by (simp only: if_True simp_thms)
  next
    case False
    with train_batch_Inr_state [OF tb] ev show ?thesis
      unfolding Let_def by (simp only: if_False append_Nil2 simp_thms)
  qed
next
  assume h: "1 \<le> accum_steps \<and> scalar_ok T accum_steps \<and> (\<forall>b\<in>set train_iter. snd b \<noteq> [])
        \<and> tracker_aligned st \<and> trainable (t_net st)"
  then have al: "tracker_aligned st" and tn: "trainable (t_net st)"
    and sc: "scalar_ok T accum_steps" and nz: "accum_steps \<noteq> 0"
    and ne: "\<forall>b\<in>set train_iter. snd b \<noteq> []"
    by simp_all
  from epoch_batches_aligned [OF al tn sc nz ne] obtain stb where
    1: "epoch_batches T accum_steps epoch st train_iter = Inr stb" by blast
  show "\<exists>stb. epoch_batches T accum_steps epoch st train_iter = Inr stb
         \<and> filter is_opt_step (t_events stb) = filter is_opt_step (t_events st)
             @ map (OptStep epoch)
                 (filter (\<lambda>i. (int i + 1) mod accum_steps = 0 \<or> i + 1 = length train_iter)
                    [0..<length train_iter])
         \<and> spec_accumulation T accum_steps (length train_iter) epoch (t_groups st)
              ((t_net st)\<lparr>training := True\<rparr>, t_ema st, t_world st) (enumerate 0 train_iter)
             = Inr (t_net stb, t_ema stb, t_world stb)
         \<and> (train_iter \<noteq> [] \<longrightarrow>
              (\<exists>accumulated m tracker.
                  t_net stb = optimizer_step T accumulated (t_groups st) m
                \<and> t_world stb = step_next T accumulated (t_groups st) m
                \<and> update tracker (t_net stb) (int epoch) = Inr (t_ema stb, t_net stb)))"
  proof (intro exI [of _ stb] conjI)
    show "epoch_batches T accum_steps epoch st train_iter = Inr stb" by (rule 1)
    show "filter is_opt_step (t_events stb) = filter is_opt_step (t_events st)
             @ map (OptStep epoch)
                 (filter (\<lambda>i. (int i + 1) mod accum_steps = 0 \<or> i + 1 = length train_iter)
                    [0..<length train_iter])"
      using epoch_batches_Inr(2) [OF 1] by (simp add: step_due_def [abs_def])
    show "spec_accumulation T accum_steps (length train_iter) epoch (t_groups st)
              ((t_net st)\<lparr>training := True\<rparr>, t_ema st, t_world st) (enumerate 0 train_iter)
             = Inr (t_net stb, t_ema stb, t_world stb)"
      by (rule epoch_batches_refines [OF 1])
    show "train_iter \<noteq> [] \<longrightarrow>
              (\<exists>accumulated m tracker.
                  t_net stb = optimizer_step T accumulated (t_groups st) m
                \<and> t_world stb = step_next T accumulated (t_groups st) m
                \<and> update tracker (t_net stb) (int epoch) = Inr (t_ema stb, t_net stb))"
      using epoch_batches_flush [OF 1] by blast
  qed
next
  assume "train_run T w gs train_iter test_iter model dev num_epochs best_acc accum_steps = Inr final"
  from train_epochs_opt_steps [OF this [unfolded train_run_unfold]]
  show "\<exists>k\<le>num_epochs. filter is_opt_step (t_events final)
         = concat (map (\<lambda>epoch. map (OptStep epoch)
                 (filter (\<lambda>i. (int i + 1) mod accum_steps = 0 \<or> i + 1 = length train_iter)
                    [0..<length train_iter])) [0..<k])"
    by (auto simp: step_due_def [abs_def])
qed

text \<open>
  C4 with \<open>accum_steps = 4\<close> and ten batches, on a network with the values 2 and 4 whose
  optimizer halves every value. Batch 3 steps: the network holds 1 and 2, the shadow
  \<open>0.999 * 2 + 0.001 * 1\<close> and \<open>0.999 * 4 + 0.001 * 2\<close>, and no gradient is left. Batch 0
  does not: network and tracker are as before and one gradient is accumulated. Over the
  epoch the block runs at indices 3, 7 and 9, and no gradient is left at its end.
\<close>

theorem optimizer_step_boundaries_witness:
  "(\<exists>sta. train_batch toy_torch 4 10 0 toy_state (3, toy_batch 2 1) = Inr sta
      \<and> state_dict (t_net sta) = [[1, 2]]
      \<and> state_dict (ema (t_ema sta)) = [[1.999, 3.998]]
      \<and> t_world sta = 0
      \<and> filter is_opt_step (t_events sta) = [OptStep 0 3])
   \<and> (\<exists>sta. train_batch toy_torch 4 10 0 toy_state (0, toy_batch 2 1) = Inr sta
      \<and> t_net sta = toy_net \<and> t_ema sta = t_ema toy_state \<and> t_world sta = 1
      \<and> filter is_opt_step (t_events sta) = [])
   \<and> (\<exists>stb. epoch_batches toy_torch 4 0 toy_state (replicate 10 (toy_batch 2 1)) = Inr stb
      \<and> filter is_opt_step (t_events stb) = [OptStep 0 3, OptStep 0 7, OptStep 0 9]
      \<and> t_world stb = 0)
   \<and> (\<exists>final k. train_run toy_torch 0 toy_groups (replicate 10 (toy_batch 2 1)) [toy_batch 2 1]
          toy_net (Some CPU) 2 0 4 = Inr final
      \<and> k \<le> 2
      \<and> filter is_opt_step (t_events final)
           = concat (map (\<lambda>epoch. [OptStep epoch 3, OptStep epoch 7, OptStep epoch 9]) [0..<k]))"
proof -
  let ?bs = "replicate 10 (toy_batch 2 1)"
  let ?X = "fst (toy_batch 2 1)" and ?y = "snd (toy_batch 2 1)"
  have ne: "\<forall>b\<in>set ?bs. snd b \<noteq> []"
    by (simp add: toy_batch_nonempty)
  from toy_train_run_ok [of ?bs 2] ne
  obtain final where run: "train_run toy_torch 0 toy_groups ?bs [toy_batch 2 1]
          toy_net (Some CPU) 2 0 4 = Inr final"
    by auto
  have "\<exists>s. train_batch toy_torch 4 10 0 toy_state (3, ?X, ?y) = Inr s \<and> tracker_aligned s
      \<and> shapes (t_net s) = shapes (t_net toy_state) \<and> trainable (t_net s)"
    by (rule train_batch_aligned [OF toy_state_aligned toy_state_trainable toy_scalar_ok])
       (simp_all add: toy_batch_nonempty)
  then obtain sc where tc: "train_batch toy_torch 4 10 0 toy_state (3, ?X, ?y) = Inr sc"
    by blast
  have "\<exists>s. train_batch toy_torch 4 10 0 toy_state (0, ?X, ?y) = Inr s \<and> tracker_aligned s
      \<and> shapes (t_net s) = shapes (t_net toy_state) \<and> trainable (t_net s)"
    by (rule train_batch_aligned [OF toy_state_aligned toy_state_trainable toy_scalar_ok])
       (simp_all add: toy_batch_nonempty)
  then obtain sz where tz: "train_batch toy_torch 4 10 0 toy_state (0, ?X, ?y) = Inr sz"
    by blast
  note inst = optimizer_step_boundaries [where accum_steps = 4
      and train_iter = "replicate 10 (toy_batch 2 1)" and st = toy_state and T = toy_torch
      and epoch = 0 and w = 0 and gs = toy_groups and test_iter = "[toy_batch 2 1]"
      and model = toy_net and dev = "Some CPU" and num_epochs = 2 and best_acc = 0
      and final = final and N = 10 and X = ?X and y = ?y]
  have st: "t_net toy_state = toy_net" "t_world toy_state = 0" "t_events toy_state = []"
      "t_ema toy_state = \<lparr>ema = \<lparr>params = [\<lparr>data = [2, 4], requires_grad = True, pdevice = CPU\<rparr>],
                    training = False\<rparr>,
            initial_decay = 0.999, min_decay = 0.995, total_epochs = 50\<rparr>"
    by (simp_all add: toy_state_def toy_net_def)
  have c: "t_net sc = optimizer_step toy_torch (Suc 0) (t_groups toy_state) toy_net
      \<and> t_world sc = 0
      \<and> update (t_ema toy_state) (optimizer_step toy_torch (Suc 0) (t_groups toy_state) toy_net) 0
          = Inr (t_ema sc, t_net sc)
      \<and> filter is_opt_step (t_events sc) = [OptStep 0 3]"
    using inst [where i = 3 and sta = sc, THEN conjunct1] tc
    by (simp add: Let_def toy_backward toy_step_next st(1,2,3))
  have c_net: "t_net sc
      = \<lparr>params = [\<lparr>data = [1, 2], requires_grad = True, pdevice = CPU\<rparr>], training = True\<rparr>"
    using c by (simp add: toy_net_def toy_optimizer_step)
  from c have "update (t_ema toy_state) (t_net sc) 0 = Inr (t_ema sc, t_net sc)" by simp
  then have "t_ema sc
      = \<lparr>ema = \<lparr>params = [\<lparr>data = [1.999, 3.998], requires_grad = True, pdevice = CPU\<rparr>],
                 training = False\<rparr>,
         initial_decay = 0.999, min_decay = 0.995, total_epochs = 50\<rparr>"
    unfolding c_net st(4) toy_update by simp
  then have c_ema: "ema (t_ema sc)
      = \<lparr>params = [\<lparr>data = [1.999, 3.998], requires_grad = True, pdevice = CPU\<rparr>], training = False\<rparr>"
    by simp
  from c have c_rest: "t_world sc = 0" "filter is_opt_step (t_events sc) = [OptStep 0 3]"
    by simp_all
  have a: "\<exists>sta. train_batch toy_torch 4 10 0 toy_state (3, toy_batch 2 1) = Inr sta
      \<and> state_dict (t_net sta) = [[1, 2]]
      \<and> state_dict (ema (t_ema sta)) = [[1.999, 3.998]]
      \<and> t_world sta = 0
      \<and> filter is_opt_step (t_events sta) = [OptStep 0 3]"
    using tc by (intro exI [of _ sc]) (simp add: state_dict_def c_net c_ema c_rest)
  have z: "\<exists>sta. train_batch toy_torch 4 10 0 toy_state (0, toy_batch 2 1) = Inr sta
      \<and> t_net sta = toy_net \<and> t_ema sta = t_ema toy_state \<and> t_world sta = 1
      \<and> filter is_opt_step (t_events sta) = []"
    using inst [where i = 0 and sta = sz, THEN conjunct1] tz
    by (intro exI [of _ sz]) (simp add: Let_def toy_backward st(1,2,3))
  have d: "filter (\<lambda>i. (int i + 1) mod 4 = 0 \<or> i + 1 = length (replicate 10 (toy_batch 2 1)))
             [0..<length (replicate 10 (toy_batch 2 1))] = [3, 7, 9]"
    unfolding length_replicate by (rule due_4_10)
  have e: "\<exists>stb. epoch_batches toy_torch 4 0 toy_state ?bs = Inr stb
      \<and> filter is_opt_step (t_events stb) = [OptStep 0 3, OptStep 0 7, OptStep 0 9]
      \<and> t_world stb = 0"
    using inst [where i = 0 and sta = sz, THEN conjunct2, THEN conjunct1, unfolded d]
      ne toy_state_aligned toy_state_trainable toy_scalar_ok
    by (auto simp: st(3) toy_step_next)
  have b: "\<exists>k\<le>2. filter is_opt_step (t_events final)
           = concat (map (\<lambda>epoch. [OptStep epoch 3, OptStep epoch 7, OptStep epoch 9]) [0..<k])"
    using inst [where i = 0 and sta = sz, THEN conjunct2, THEN conjunct2, unfolded d] run by simp
  from a z e b run show ?thesis by blast
qed

subsection \<open>C5: the update of the shadow\<close>

text \<open>
  C5. Every call of \<^verbatim>\<open>update(model, current_epoch)\<close> on a tracker whose \<^verbatim>\<open>total_epochs\<close>
  is not zero and whose shadow has the sizes of the live model returns, with every shadow
  element set to \<open>decay * shadow + (1 - decay) * live\<close> for the decay of the epoch, and
  with the live model as it was. (Numbers are reals here: the arithmetic is exact.)
\<close>

theorem update_sets_shadow:
  assumes "total_epochs self \<noteq> 0" and "shapes (ema self) = shapes model"
  shows "\<exists>decay. current_decay self current_epoch = Inr decay
     \<and> update self model current_epoch =
         Inr (self\<lparr>ema := (ema self)\<lparr>params :=
                map2 (\<lambda>e m. e\<lparr>data := map2 (\<lambda>shadow live. decay * shadow + (1 - decay) * live) (data e) (data m)\<rparr>)
                  (params (ema self)) (params model)\<rparr>\<rparr>,
              model)"
proof -
  from assms(2) have "map (\<lambda>p. length (data p)) (params (ema self)) = map (\<lambda>p. length (data p)) (params model)"
    by (simp add: shapes_def)
  then show ?thesis
    using assms(1) by (simp add: update_def current_decay_Inr for_zip_ema_step)
qed

text \<open>C5 on a one-parameter model at epoch 25, where the decay is 0.997.\<close>

theorem update_sets_shadow_witness:
  "update \<lparr>ema = \<lparr>params = [\<lparr>data = [1, 2], requires_grad = False, pdevice = CPU\<rparr>], training = False\<rparr>,
            initial_decay = 0.999, min_decay = 0.995, total_epochs = 50\<rparr>
          \<lparr>params = [\<lparr>data = [2, 4], requires_grad = True, pdevice = CPU\<rparr>], training = True\<rparr> 25
     = Inr (\<lparr>ema = \<lparr>params = [\<lparr>data = [1.003, 2.006], requires_grad = False, pdevice = CPU\<rparr>], training = False\<rparr>,
              initial_decay = 0.999, min_decay = 0.995, total_epochs = 50\<rparr>,
            \<lparr>params = [\<lparr>data = [2, 4], requires_grad = True, pdevice = CPU\<rparr>], training = True\<rparr>)"
  using update_sets_shadow [of
      "\<lparr>ema = \<lparr>params = [\<lparr>data = [1, 2], requires_grad = False, pdevice = CPU\<rparr>], training = False\<rparr>,
            initial_decay = 0.999, min_decay = 0.995, total_epochs = 50\<rparr>"
      "\<lparr>params = [\<lparr>data = [2, 4], requires_grad = True, pdevice = CPU\<rparr>], training = True\<rparr>" 25]
proof -
  let ?self = "\<lparr>ema = \<lparr>params = [\<lparr>data = [1, 2], requires_grad = False, pdevice = CPU\<rparr>], training = False\<rparr>,
            initial_decay = 0.999, min_decay = 0.995, total_epochs = 50\<rparr>"
  let ?model = "\<lparr>params = [\<lparr>data = [2, 4], requires_grad = True, pdevice = CPU\<rparr>], training = True\<rparr>"
  have cd: "current_decay ?self 25 = Inr 0.997"
    by (simp add: current_decay_def)
  assume "total_epochs ?self \<noteq> 0 \<Longrightarrow> shapes (ema ?self) = shapes ?model \<Longrightarrow>
    \<exists>decay. current_decay ?self 25 = Inr decay
     \<and> update ?self ?model 25 =
         Inr (?self\<lparr>ema := (ema ?self)\<lparr>params :=
                map2 (\<lambda>e m. e\<lparr>data := map2 (\<lambda>shadow live. decay * shadow + (1 - decay) * live) (data e) (data m)\<rparr>)
                  (params (ema ?self)) (params ?model)\<rparr>\<rparr>,
              ?model)"
  then obtain decay where d: "current_decay ?self 25 = Inr decay"
    and u: "update ?self ?model 25 =
         Inr (?self\<lparr>ema := (ema ?self)\<lparr>params :=
                map2 (\<lambda>e m. e\<lparr>data := map2 (\<lambda>shadow live. decay * shadow + (1 - decay) * live) (data e) (data m)\<rparr>)
                  (params (ema ?self)) (params ?model)\<rparr>\<rparr>,
              ?model)"
    by (auto simp: shapes_def)
  from d cd have "decay = 0.997" by simp
  with u show ?thesis by simp
qed

subsection \<open>C6: the decay schedule\<close>

text \<open>
  C6. On a tracker with \<open>min_decay \<le> initial_decay\<close> and a positive \<^verbatim>\<open>total_epochs\<close>, the
  decay that \<^verbatim>\<open>update\<close> uses at an epoch is
  \<open>max (initial_decay - (initial_decay - min_decay) * (current_epoch / total_epochs)) min_decay\<close>;
  it does not increase when the epoch increases, it is \<open>initial_decay\<close> at epoch 0 and
  \<open>min_decay\<close> at every epoch from \<^verbatim>\<open>total_epochs\<close> on.
\<close>

theorem current_decay_schedule:
  assumes "min_decay self \<le> initial_decay self" and "0 < total_epochs self"
  shows "current_decay self e =
           Inr (max (initial_decay self - (initial_decay self - min_decay self)
                        * (real_of_int e / real_of_int (total_epochs self))) (min_decay self))
     \<and> (\<forall>e1 e2 d1 d2. e1 \<le> e2 \<and> current_decay self e1 = Inr d1 \<and> current_decay self e2 = Inr d2
            \<longrightarrow> d2 \<le> d1)
     \<and> current_decay self 0 = Inr (initial_decay self)
     \<and> (\<forall>e2. total_epochs self \<le> e2 \<longrightarrow> current_decay self e2 = Inr (min_decay self))
     \<and> (\<forall>d. current_decay self e = Inr d \<longrightarrow>
           update self model e =
             (case for_zip (ema_step d) (params (ema self)) (params model) of
                Inl err \<Rightarrow> Inl err
              | Inr ps \<Rightarrow> Inr (self\<lparr>ema := (ema self)\<lparr>params := ps\<rparr>\<rparr>, model)))"
proof -
  let ?i = "initial_decay self" and ?m = "min_decay self"
  let ?T = "real_of_int (total_epochs self)"
  have T: "0 < ?T" and T0: "total_epochs self \<noteq> 0" using assms(2) by simp_all
  have gap: "0 \<le> ?i - ?m" using assms(1) by simp
  have mono: "d2 \<le> d1"
    if "e1 \<le> e2" "current_decay self e1 = Inr d1" "current_decay self e2 = Inr d2" for e1 e2 d1 d2
  proof -
    have "real_of_int e1 / ?T \<le> real_of_int e2 / ?T"
      using that(1) T by (simp add: divide_right_mono)
    then have "(?i - ?m) * (real_of_int e1 / ?T) \<le> (?i - ?m) * (real_of_int e2 / ?T)"
      using gap by (rule mult_left_mono)
    then show ?thesis
      using that(2,3) by (auto simp: current_decay_Inr [OF T0])
  qed
  have clamp: "current_decay self e2 = Inr ?m" if "total_epochs self \<le> e2" for e2
  proof -
    have "1 \<le> real_of_int e2 / ?T" using that T by simp
    then have "(?i - ?m) * 1 \<le> (?i - ?m) * (real_of_int e2 / ?T)"
      using gap by (rule mult_left_mono)
    then show ?thesis
      by (simp add: current_decay_Inr [OF T0] max_def)
  qed
  have zero: "current_decay self 0 = Inr ?i"
    using assms(1) by (simp add: current_decay_Inr [OF T0])
  have upd: "update self model e =
             (case for_zip (ema_step d) (params (ema self)) (params model) of
                Inl err \<Rightarrow> Inl err
              | Inr ps \<Rightarrow> Inr (self\<lparr>ema := (ema self)\<lparr>params := ps\<rparr>\<rparr>, model))"
    if "current_decay self e = Inr d" for d
    using that by (simp add: update_def)
  show ?thesis
    using mono clamp zero upd current_decay_Inr [OF T0, of e] by blast
qed

text \<open>C6 on the tracker that \<^verbatim>\<open>train\<close> builds (0.999, 0.995, 50), at epochs 25, 0 and 60.\<close>

theorem current_decay_schedule_witness:
  "current_decay \<lparr>ema = \<lparr>params = [], training = False\<rparr>, initial_decay = 0.999, min_decay = 0.995, total_epochs = 50\<rparr> 25 = Inr 0.997
   \<and> current_decay \<lparr>ema = \<lparr>params = [], training = False\<rparr>, initial_decay = 0.999, min_decay = 0.995, total_epochs = 50\<rparr> 0 = Inr 0.999
   \<and> current_decay \<lparr>ema = \<lparr>params = [], training = False\<rparr>, initial_decay = 0.999, min_decay = 0.995, total_epochs = 50\<rparr> 60 = Inr 0.995"
  using current_decay_schedule [of
     "\<lparr>ema = \<lparr>params = [], training = False\<rparr>, initial_decay = 0.999, min_decay = 0.995, total_epochs = 50\<rparr>" 25]
  by simp

subsection \<open>C7: from the cosine to the plateau scheduler\<close>

text \<open>
  C7. At epoch 12 the plateau scheduler steps on the rebased state: there every group's
  \<^verbatim>\<open>initial_lr\<close> is its current learning rate, the learning rates themselves are
  untouched, and \<^verbatim>\<open>base_lrs\<close> is the list of the current rates. Before epoch 12 only the
  cosine scheduler steps, from epoch 12 on only the plateau scheduler, and after epoch 12
  without a second rebase. Nothing else in an epoch writes the parameter groups, so the
  rates captured at epoch 12 are the ones the cosine step of epoch 11 computed. In a run
  that returns, the scheduler steps are one per epoch, in order: cosine for the epochs
  below 12, plateau from 12 on.
\<close>

theorem scheduler_handoff:
  "schedule_block T 12 acc st
     = (plateau_scheduler_step T 12 acc (rebase st))\<lparr>t_current_scheduler := ''plateau''\<rparr>
   \<and> map initial_lr (t_groups (rebase st)) = map (\<lambda>g. Some (lr g)) (t_groups st)
   \<and> map lr (t_groups (rebase st)) = map lr (t_groups st)
   \<and> t_base_lrs (rebase st) = Some (map lr (t_groups st))
   \<and> (epoch < 12 \<longrightarrow> schedule_block T epoch acc st
         = (cosine_scheduler_step T epoch st)\<lparr>t_current_scheduler := ''cosine''\<rparr>)
   \<and> (12 < epoch \<longrightarrow> schedule_block T epoch acc st
         = (plateau_scheduler_step T epoch acc st)\<lparr>t_current_scheduler := ''plateau''\<rparr>)
   \<and> t_events (schedule_block T epoch acc st)
        = t_events st @ [if epoch < 12 then CosineStep epoch else PlateauStep epoch acc]
   \<and> (epoch_body T train_iter test_iter dev a epoch st = Inr (st', stop) \<longrightarrow>
        (\<exists>st2 acc loss eacc eloss.
            epoch_front T train_iter test_iter dev a epoch st = Inr (st2, acc, loss, eacc, eloss)
          \<and> t_groups st2 = t_groups st \<and> t_base_lrs st2 = t_base_lrs st
          \<and> t_groups st' = t_groups (schedule_block T epoch acc st2)
          \<and> t_base_lrs st' = t_base_lrs (schedule_block T epoch acc st2)))
   \<and> (epoch_body T train_iter test_iter dev a 11 st = Inr (sta, stopa)
        \<and> epoch_front T train_iter test_iter dev a 12 sta = Inr (stb, accb, lossb, eaccb, elossb) \<longrightarrow>
        (\<exists>w gs. length gs = length (t_groups stb)
          \<and> map lr (t_groups stb) = map (cosine_lr T w 11 gs) [0..<length gs]
          \<and> map initial_lr (t_groups (rebase stb))
               = map (\<lambda>i. Some (cosine_lr T w 11 gs i)) [0..<length gs]
          \<and> t_base_lrs (rebase stb) = Some (map (cosine_lr T w 11 gs) [0..<length gs])))
   \<and> (train_run T w0 gs0 train_iter test_iter model dev num_epochs best_acc a = Inr final \<longrightarrow>
        (\<exists>accs. length accs \<le> num_epochs
          \<and> filter is_sched (t_events final)
               = map2 (\<lambda>epoch acc. if epoch < 12 then CosineStep epoch else PlateauStep epoch acc)
                   [0..<num_epochs] accs))"
proof (intro conjI impI)
  show "schedule_block T 12 acc st
     = (plateau_scheduler_step T 12 acc (rebase st))\<lparr>t_current_scheduler := ''plateau''\<rparr>"
    by (simp add: schedule_block_def)
  show "map initial_lr (t_groups (rebase st)) = map (\<lambda>g. Some (lr g)) (t_groups st)"
    and "map lr (t_groups (rebase st)) = map lr (t_groups st)"
    and "t_base_lrs (rebase st) = Some (map lr (t_groups st))"
    by (rule rebase_groups)+
  show "t_events (schedule_block T epoch acc st)
        = t_events st @ [if epoch < 12 then CosineStep epoch else PlateauStep epoch acc]"
    by (simp add: schedule_block_events sched_event_def)
next
  assume "epoch < 12"
  then show "schedule_block T epoch acc st
         = (cosine_scheduler_step T epoch st)\<lparr>t_current_scheduler := ''cosine''\<rparr>"
    by (simp add: schedule_block_def)
next
  assume "12 < epoch"
  then show "schedule_block T epoch acc st
         = (plateau_scheduler_step T epoch acc st)\<lparr>t_current_scheduler := ''plateau''\<rparr>"
    by (simp add: schedule_block_def)
next
  assume "epoch_body T train_iter test_iter dev a epoch st = Inr (st', stop)"
  then show "\<exists>st2 acc loss eacc eloss.
            epoch_front T train_iter test_iter dev a epoch st = Inr (st2, acc, loss, eacc, eloss)
          \<and> t_groups st2 = t_groups st \<and> t_base_lrs st2 = t_base_lrs st
          \<and> t_groups st' = t_groups (schedule_block T epoch acc st2)
          \<and> t_base_lrs st' = t_base_lrs (schedule_block T epoch acc st2)"
    by (rule epoch_body_groups)
next
  assume "epoch_body T train_iter test_iter dev a 11 st = Inr (sta, stopa)
        \<and> epoch_front T train_iter test_iter dev a 12 sta = Inr (stb, accb, lossb, eaccb, elossb)"
  then show "\<exists>w gs. length gs = length (t_groups stb)
          \<and> map lr (t_groups stb) = map (cosine_lr T w 11 gs) [0..<length gs]
          \<and> map initial_lr (t_groups (rebase stb))
               = map (\<lambda>i. Some (cosine_lr T w 11 gs i)) [0..<length gs]
          \<and> t_base_lrs (rebase stb) = Some (map (cosine_lr T w 11 gs) [0..<length gs])"
    using cosine_handoff by blast
next
  assume "train_run T w0 gs0 train_iter test_iter model dev num_epochs best_acc a = Inr final"
  from train_epochs_sched [OF this [unfolded train_run_unfold]]
  show "\<exists>accs. length accs \<le> num_epochs
          \<and> filter is_sched (t_events final)
               = map2 (\<lambda>epoch acc. if epoch < 12 then CosineStep epoch else PlateauStep epoch acc)
                   [0..<num_epochs] accs"
    by (simp add: sched_event_def [abs_def])
qed

text \<open>C7 on a run of 14 epochs and on the epochs 11 and 12 of the concrete instance.\<close>

theorem scheduler_handoff_witness:
  "(\<exists>final accs. train_run toy_torch 0 toy_groups [toy_batch 2 1] [toy_batch 2 1] toy_net (Some CPU) 14 0 4
        = Inr final
      \<and> length accs \<le> 14
      \<and> filter is_sched (t_events final)
           = map2 (\<lambda>epoch acc. if epoch < 12 then CosineStep epoch else PlateauStep epoch acc)
               [0..<14] accs)
   \<and> (\<exists>sta stopa stb accb lossb eaccb elossb w gs.
        epoch_body toy_torch [toy_batch 2 1] [toy_batch 2 1] (Some CPU) 4 11 toy_state = Inr (sta, stopa)
      \<and> epoch_front toy_torch [toy_batch 2 1] [toy_batch 2 1] (Some CPU) 4 12 sta
           = Inr (stb, accb, lossb, eaccb, elossb)
      \<and> length gs = length (t_groups stb)
      \<and> map lr (t_groups stb) = map (cosine_lr toy_torch w 11 gs) [0..<length gs]
      \<and> map initial_lr (t_groups (rebase stb))
           = map (\<lambda>i. Some (cosine_lr toy_torch w 11 gs i)) [0..<length gs]
      \<and> t_base_lrs (rebase stb) = Some (map (cosine_lr toy_torch w 11 gs) [0..<length gs]))
   \<and> (\<exists>sta stopa st2 acc loss eacc eloss.
        epoch_body toy_torch [toy_batch 2 1] [toy_batch 2 1] (Some CPU) 4 11 toy_state = Inr (sta, stopa)
      \<and> epoch_front toy_torch [toy_batch 2 1] [toy_batch 2 1] (Some CPU) 4 11 toy_state
           = Inr (st2, acc, loss, eacc, eloss)
      \<and> t_groups st2 = toy_groups
      \<and> t_groups sta = t_groups (schedule_block toy_torch 11 acc st2))
   \<and> schedule_block toy_torch 13 0.5 toy_state
        = (plateau_scheduler_step toy_torch 13 0.5 toy_state)\<lparr>t_current_scheduler := ''plateau''\<rparr>
   \<and> t_events (schedule_block toy_torch 11 0.5 toy_state) = [CosineStep 11]
   \<and> t_events (schedule_block toy_torch 12 0.5 toy_state) = [PlateauStep 12 0.5]
   \<and> map initial_lr (t_groups (rebase toy_state)) = [Some 0.00002, Some 0.0005, Some 0.001]
   \<and> t_base_lrs (rebase toy_state) = Some [0.00002, 0.0005, 0.001]"
proof -
  let ?bs = "[toy_batch 2 1]"
  have ne: "\<forall>b\<in>set ?bs. snd b \<noteq> []" by (simp add: toy_batch_nonempty)
  have s: "samples ?bs \<noteq> 0" by (simp add: toy_batch_samples)
  from toy_train_run_ok [of ?bs 14] ne
  obtain final where run: "train_run toy_torch 0 toy_groups ?bs ?bs toy_net (Some CPU) 14 0 4 = Inr final"
    by auto
  have g: "2 \<le> length (t_groups toy_state)" by (simp add: toy_state_def toy_groups_def)
  from toy_epoch_body_ok [OF toy_state_aligned toy_state_trainable g, of 11]
  obtain sta stopa where ba: "epoch_body toy_torch ?bs ?bs (Some CPU) 4 11 toy_state = Inr (sta, stopa)"
    and ala: "tracker_aligned sta" and tna: "trainable (t_net sta)"
    and ga: "length (t_groups sta) = length (t_groups toy_state)"
    by blast
  from ga g have g2: "2 \<le> length (t_groups sta)" by simp
  from toy_epoch_body_ok [OF ala tna g2, of 12]
  obtain stc stopc where "epoch_body toy_torch ?bs ?bs (Some CPU) 4 12 sta = Inr (stc, stopc)"
    by blast
  from epoch_body_Inr [OF this] obtain stb accb lossb eaccb elossb where
    fb: "epoch_front toy_torch ?bs ?bs (Some CPU) 4 12 sta = Inr (stb, accb, lossb, eaccb, elossb)"
    by blast
  note inst = scheduler_handoff [where T = toy_torch and acc = "0.5" and st = toy_state
      and epoch = 11 and train_iter = ?bs and test_iter = ?bs and dev = "Some CPU" and a = 4
      and st' = sta and stop = stopa and sta = sta and stopa = stopa and stb = stb
      and accb = accb and lossb = lossb and eaccb = eaccb and elossb = elossb
      and ?w0.0 = 0 and ?gs0.0 = toy_groups and model = toy_net and num_epochs = 14
      and best_acc = 0 and final = final]
  have ev: "t_events toy_state = []" "t_groups toy_state = toy_groups"
    by (simp_all add: toy_state_def)
  have a: "\<exists>accs. length accs \<le> 14
      \<and> filter is_sched (t_events final)
           = map2 (\<lambda>epoch acc. if epoch < 12 then CosineStep epoch else PlateauStep epoch acc)
               [0..<14] accs"
    using inst run by blast
  have b: "\<exists>w gs. length gs = length (t_groups stb)
      \<and> map lr (t_groups stb) = map (cosine_lr toy_torch w 11 gs) [0..<length gs]
      \<and> map initial_lr (t_groups (rebase stb))
           = map (\<lambda>i. Some (cosine_lr toy_torch w 11 gs i)) [0..<length gs]
      \<and> t_base_lrs (rebase stb) = Some (map (cosine_lr toy_torch w 11 gs) [0..<length gs])"
    using inst ba fb by blast
  have c: "t_events (schedule_block toy_torch 11 0.5 toy_state) = [CosineStep 11]"
    using inst by (simp add: ev cosine_scheduler_step_def)
  have d: "t_events (schedule_block toy_torch 12 0.5 toy_state) = [PlateauStep 12 0.5]"
    using scheduler_handoff [where T = toy_torch and acc = "0.5" and st = toy_state and epoch = 12]
    by (simp add: ev plateau_scheduler_step_def rebase_def)
  have e: "map initial_lr (t_groups (rebase toy_state)) = [Some 0.00002, Some 0.0005, Some 0.001]
     \<and> t_base_lrs (rebase toy_state) = Some [0.00002, 0.0005, 0.001]"
    using inst by (simp add: ev toy_groups_def)
  have f: "\<exists>st2 acc loss eacc eloss.
        epoch_front toy_torch ?bs ?bs (Some CPU) 4 11 toy_state = Inr (st2, acc, loss, eacc, eloss)
      \<and> t_groups st2 = toy_groups
      \<and> t_groups sta = t_groups (schedule_block toy_torch 11 acc st2)"
    using inst ba by (simp add: ev) blast
  have h: "schedule_block toy_torch 13 0.5 toy_state
        = (plateau_scheduler_step toy_torch 13 0.5 toy_state)\<lparr>t_current_scheduler := ''plateau''\<rparr>"
    using scheduler_handoff [where T = toy_torch and acc = "0.5" and st = toy_state and epoch = 13]
    by simp
  from a b c d e f h run ba fb show ?thesis by blast
qed

subsection \<open>C8: early stopping\<close>

text \<open>
  C8. The early-stopping metric of an epoch is \<open>0.8 * val_accuracy + 0.2 * (1 - val_loss)\<close>
  of the live model. When it strictly exceeds the running best, the best becomes it and
  the counter is reset to 0; otherwise the counter grows by one, and when it has reached
  the patience (12) the epoch signals the stop and \<^verbatim>\<open>train\<close> runs no further epoch. The
  counter and the best metric are not written by the scheduler block, and the early-stop
  check writes neither the collaborators' state, nor the parameter groups, nor
  \<^verbatim>\<open>base_lrs\<close>.
\<close>

theorem early_stop_policy:
  "early_stop_block epoch acc loss st =
     (if 0.8 * acc + 0.2 * (1 - loss) > t_best_metric st
      then (st\<lparr>t_best_metric := 0.8 * acc + 0.2 * (1 - loss), t_no_improve := 0\<rparr>, False)
      else if t_no_improve st + 1 \<ge> patience
      then (st\<lparr>t_no_improve := t_no_improve st + 1, t_events := t_events st @ [EarlyStop epoch]\<rparr>, True)
      else (st\<lparr>t_no_improve := t_no_improve st + 1\<rparr>, False))
   \<and> patience = 12
   \<and> (epoch_body T train_iter test_iter dev a epoch st = Inr (st', stop) \<longrightarrow>
        (\<exists>st2 acc loss eacc eloss.
            epoch_front T train_iter test_iter dev a epoch st = Inr (st2, acc, loss, eacc, eloss)
          \<and> t_best_metric st' = max (t_best_metric st) (0.8 * acc + 0.2 * (1 - loss))
          \<and> t_no_improve st' = (if 0.8 * acc + 0.2 * (1 - loss) > t_best_metric st then 0
                                 else t_no_improve st + 1)
          \<and> stop = (\<not> 0.8 * acc + 0.2 * (1 - loss) > t_best_metric st
                     \<and> t_no_improve st + 1 \<ge> patience))
        \<and> train_epochs T train_iter test_iter dev a (epoch # rest) st
            = (if stop then Inr st' else train_epochs T train_iter test_iter dev a rest st'))
   \<and> t_no_improve (schedule_block T epoch acc st) = t_no_improve st
   \<and> t_best_metric (schedule_block T epoch acc st) = t_best_metric st
   \<and> t_world (fst (early_stop_block epoch acc loss st)) = t_world st
   \<and> t_groups (fst (early_stop_block epoch acc loss st)) = t_groups st
   \<and> t_base_lrs (fst (early_stop_block epoch acc loss st)) = t_base_lrs st"
proof (intro conjI impI)
  show "early_stop_block epoch acc loss st =
     (if 0.8 * acc + 0.2 * (1 - loss) > t_best_metric st
      then (st\<lparr>t_best_metric := 0.8 * acc + 0.2 * (1 - loss), t_no_improve := 0\<rparr>, False)
      else if t_no_improve st + 1 \<ge> patience
      then (st\<lparr>t_no_improve := t_no_improve st + 1, t_events := t_events st @ [EarlyStop epoch]\<rparr>, True)
      else (st\<lparr>t_no_improve := t_no_improve st + 1\<rparr>, False))"
    by (rule early_stop_block_eq)
  show "patience = 12" by (rule patience_def)
  show "t_no_improve (schedule_block T epoch acc st) = t_no_improve st"
    and "t_best_metric (schedule_block T epoch acc st) = t_best_metric st"
    by (simp_all add: schedule_block_keeps)
  show "t_world (fst (early_stop_block epoch acc loss st)) = t_world st"
    and "t_groups (fst (early_stop_block epoch acc loss st)) = t_groups st"
    and "t_base_lrs (fst (early_stop_block epoch acc loss st)) = t_base_lrs st"
    by (simp_all add: early_stop_block_eq)
next
  assume body: "epoch_body T train_iter test_iter dev a epoch st = Inr (st', stop)"
  then show "train_epochs T train_iter test_iter dev a (epoch # rest) st
            = (if stop then Inr st' else train_epochs T train_iter test_iter dev a rest st')"
    by simp
  from epoch_body_Inr [OF body] obtain st2 acc loss eacc eloss st3 where
    front: "epoch_front T train_iter test_iter dev a epoch st = Inr (st2, acc, loss, eacc, eloss)"
    and log: "log_scalars epoch acc loss eacc eloss (schedule_block T epoch acc st2) = Inr st3"
    and fin: "early_stop_block epoch acc loss (save_block epoch acc eacc st3) = (st', stop)"
    by blast
  let ?sb = "schedule_block T epoch acc st2"
  from log_scalars_Inr(1)[OF log] obtain evs where st3: "st3 = ?sb\<lparr>t_events := t_events ?sb @ evs\<rparr>"
    by blast
  from epoch_front_Inr(1) [OF front] have k2: "t_best_metric st2 = t_best_metric st"
    "t_no_improve st2 = t_no_improve st" by (simp_all add: frame_def)
  have k3: "t_best_metric (save_block epoch acc eacc st3) = t_best_metric st"
    "t_no_improve (save_block epoch acc eacc st3) = t_no_improve st"
    by (simp_all add: save_block_eq st3 schedule_block_keeps k2)
  from fin have "t_best_metric st' = max (t_best_metric st) (0.8 * acc + 0.2 * (1 - loss))
          \<and> t_no_improve st' = (if 0.8 * acc + 0.2 * (1 - loss) > t_best_metric st then 0
                                 else t_no_improve st + 1)
          \<and> stop = (\<not> 0.8 * acc + 0.2 * (1 - loss) > t_best_metric st
                     \<and> t_no_improve st + 1 \<ge> patience)"
    by (auto simp: early_stop_block_eq k3 split: if_splits)
  with front show "\<exists>st2 acc loss eacc eloss.
            epoch_front T train_iter test_iter dev a epoch st = Inr (st2, acc, loss, eacc, eloss)
          \<and> t_best_metric st' = max (t_best_metric st) (0.8 * acc + 0.2 * (1 - loss))
          \<and> t_no_improve st' = (if 0.8 * acc + 0.2 * (1 - loss) > t_best_metric st then 0
                                 else t_no_improve st + 1)
          \<and> stop = (\<not> 0.8 * acc + 0.2 * (1 - loss) > t_best_metric st
                     \<and> t_no_improve st + 1 \<ge> patience)"
    by blast
qed

text \<open>
  C8 on three checks (an improvement, a first miss, the twelfth miss) and on the first
  epoch of the concrete instance.
\<close>

theorem early_stop_policy_witness:
  "early_stop_block 0 0.5 0.5 toy_state = (toy_state\<lparr>t_best_metric := 0.5, t_no_improve := 0\<rparr>, False)
   \<and> early_stop_block 1 0.5 0.5 (toy_state\<lparr>t_best_metric := 0.5\<rparr>)
        = (toy_state\<lparr>t_best_metric := 0.5, t_no_improve := 1\<rparr>, False)
   \<and> early_stop_block 12 0.5 0.5 (toy_state\<lparr>t_best_metric := 0.5, t_no_improve := 11\<rparr>)
        = (toy_state\<lparr>t_best_metric := 0.5, t_no_improve := 12, t_events := [EarlyStop 12]\<rparr>, True)
   \<and> (\<exists>st' stop. epoch_body toy_torch [toy_batch 2 1] [toy_batch 2 1] (Some CPU) 4 0 toy_state
          = Inr (st', stop)
        \<and> train_epochs toy_torch [toy_batch 2 1] [toy_batch 2 1] (Some CPU) 4 [0, 1] toy_state
          = (if stop then Inr st'
             else train_epochs toy_torch [toy_batch 2 1] [toy_batch 2 1] (Some CPU) 4 [1] st'))"
proof -
  let ?bs = "[toy_batch 2 1]"
  have ne: "\<forall>b\<in>set ?bs. snd b \<noteq> []" by (simp add: toy_batch_nonempty)
  have s: "samples ?bs \<noteq> 0" by (simp add: toy_batch_samples)
  have g: "2 \<le> length (t_groups toy_state)" by (simp add: toy_state_def toy_groups_def)
  from toy_epoch_body_ok [OF toy_state_aligned toy_state_trainable g, of 0]
  obtain st' stop where eb: "epoch_body toy_torch ?bs ?bs (Some CPU) 4 0 toy_state = Inr (st', stop)"
    by blast
  have a: "early_stop_block 0 0.5 0.5 toy_state
      = (toy_state\<lparr>t_best_metric := 0.5, t_no_improve := 0\<rparr>, False)"
    using early_stop_policy [where epoch = 0 and acc = "0.5" and loss = "0.5" and st = toy_state,
        THEN conjunct1]
    by (simp add: toy_state_def)
  have b: "early_stop_block 1 0.5 0.5 (toy_state\<lparr>t_best_metric := 0.5\<rparr>)
        = (toy_state\<lparr>t_best_metric := 0.5, t_no_improve := 1\<rparr>, False)"
    using early_stop_policy [where epoch = 1 and acc = "0.5" and loss = "0.5"
        and st = "toy_state\<lparr>t_best_metric := 0.5\<rparr>", THEN conjunct1]
    by (simp add: toy_state_def patience_def)
  have c: "early_stop_block 12 0.5 0.5 (toy_state\<lparr>t_best_metric := 0.5, t_no_improve := 11\<rparr>)
        = (toy_state\<lparr>t_best_metric := 0.5, t_no_improve := 12, t_events := [EarlyStop 12]\<rparr>, True)"
    using early_stop_policy [where epoch = 12 and acc = "0.5" and loss = "0.5"
        and st = "toy_state\<lparr>t_best_metric := 0.5, t_no_improve := 11\<rparr>", THEN conjunct1]
    by (simp add: toy_state_def patience_def)
  have d: "train_epochs toy_torch ?bs ?bs (Some CPU) 4 [0, 1] toy_state
          = (if stop then Inr st' else train_epochs toy_torch ?bs ?bs (Some CPU) 4 [1] st')"
    using early_stop_policy [where T = toy_torch and train_iter = ?bs and test_iter = ?bs
        and dev = "Some CPU" and a = 4 and epoch = 0 and st = toy_state and st' = st'
        and stop = stop and rest = "[1]"] eb
    by blast
  from a b c d eb show ?thesis by blast
qed

subsection \<open>C9: sample-weighted metrics\<close>

text \<open>
  C9. Every batch of the training loop adds its loss, divided by \<^verbatim>\<open>accum_steps\<close> and
  multiplied back (which is the loss itself), times its number of samples to the loss
  sum, its number of samples times its accuracy to the accuracy sum, and its number of
  samples to the count. After an epoch the two training means are these sums, over the
  losses and accuracies of the progress lines, divided by the number of samples of the
  stream. \<^verbatim>\<open>evaluate_accuracy\<close> returns the means weighted in the same way. For batches
  of sizes 8, 8, 8 and 6 the mean accuracy is \<open>(8 * a1 + 8 * a2 + 8 * a3 + 6 * a4) / 30\<close>.
\<close>

theorem sample_weighted_metrics:
  "(train_batch T accum_steps total_batches epoch st (i, X, y) = Inr st' \<longrightarrow>
      (\<exists>l a. t_events st' = t_events st
            @ (if step_due accum_steps total_batches i then [OptStep epoch i] else [])
            @ [Progress epoch i l a]
          \<and> l = loss_fn T (forward T (t_world st) (t_net st) X) y
                  / real_of_int accum_steps * real_of_int accum_steps
          \<and> l = loss_fn T (forward T (t_world st) (t_net st) X) y
          \<and> a = real (num_correct (forward T (t_world st) (t_net st) X) y) / real (length y)
          \<and> t_train_l_sum st' = t_train_l_sum st + l * real (length y)
          \<and> t_train_acc_sum st' = t_train_acc_sum st + real (length y) * a
          \<and> t_n st' = t_n st + length y))
   \<and> (epoch_batches T accum_steps epoch st train_iter = Inr stb \<and> train_iter \<noteq> [] \<longrightarrow>
      (\<exists>ps. length ps = length train_iter
          \<and> progress_of (t_events stb) = progress_of (t_events st) @ ps
          \<and> train_metrics stb =
              Inr ((\<Sum>(p, k)\<leftarrow>zip ps (map (\<lambda>b. length (snd b)) train_iter). fst p * real k)
                     / real (samples train_iter),
                   (\<Sum>(p, k)\<leftarrow>zip ps (map (\<lambda>b. length (snd b)) train_iter). real k * snd p)
                     / real (samples train_iter))))
   \<and> (samples data_iter \<noteq> 0 \<and> (dev \<noteq> None \<or> params net \<noteq> []) \<and> (use_ema \<longrightarrow> ema_model \<noteq> None) \<longrightarrow>
      evaluate_accuracy T w data_iter net dev use_ema ema_model =
        Inr ((\<Sum>b\<leftarrow>data_iter. real (length (snd b))
                * batch_accuracy T w ((if use_ema then ema (the ema_model) else net)\<lparr>training := False\<rparr>) b)
               / real (samples data_iter),
             (\<Sum>b\<leftarrow>data_iter. real (length (snd b))
                * batch_loss T w ((if use_ema then ema (the ema_model) else net)\<lparr>training := False\<rparr>) b)
               / real (samples data_iter)))"
proof (intro conjI impI)
  assume tb: "train_batch T accum_steps total_batches epoch st (i, X, y) = Inr st'"
  from train_batch_Inr(3)[OF tb] have "loss_fn T (forward T (t_world st) (t_net st) X) y
                  / real_of_int accum_steps * real_of_int accum_steps
      = loss_fn T (forward T (t_world st) (t_net st) X) y" by simp
  with train_batch_Inr(2)[OF tb]
  show "\<exists>l a. t_events st' = t_events st
            @ (if step_due accum_steps total_batches i then [OptStep epoch i] else [])
            @ [Progress epoch i l a]
          \<and> l = loss_fn T (forward T (t_world st) (t_net st) X) y
                  / real_of_int accum_steps * real_of_int accum_steps
          \<and> l = loss_fn T (forward T (t_world st) (t_net st) X) y
          \<and> a = real (num_correct (forward T (t_world st) (t_net st) X) y) / real (length y)
          \<and> t_train_l_sum st' = t_train_l_sum st + l * real (length y)
          \<and> t_train_acc_sum st' = t_train_acc_sum st + real (length y) * a
          \<and> t_n st' = t_n st + length y"
    by metis
next
  assume h: "epoch_batches T accum_steps epoch st train_iter = Inr stb \<and> train_iter \<noteq> []"
  then have eb: "epoch_batches T accum_steps epoch st train_iter = Inr stb" and ne: "train_iter \<noteq> []"
    by simp_all
  from epoch_batches_Inr(5)[OF eb] obtain ps where ps: "length ps = length train_iter"
    "progress_of (t_events stb) = progress_of (t_events st) @ ps"
    "t_n stb = samples train_iter"
    "t_train_acc_sum stb = (\<Sum>(p, k)\<leftarrow>zip ps (map (\<lambda>b. length (snd b)) train_iter). real k * snd p)"
    "t_train_l_sum stb = (\<Sum>(p, k)\<leftarrow>zip ps (map (\<lambda>b. length (snd b)) train_iter). fst p * real k)"
    by blast
  from samples_pos [OF ne epoch_batches_Inr(6)[OF eb]] have "samples train_iter \<noteq> 0" .
  with ps have "train_metrics stb =
              Inr ((\<Sum>(p, k)\<leftarrow>zip ps (map (\<lambda>b. length (snd b)) train_iter). fst p * real k)
                     / real (samples train_iter),
                   (\<Sum>(p, k)\<leftarrow>zip ps (map (\<lambda>b. length (snd b)) train_iter). real k * snd p)
                     / real (samples train_iter))"
    by (simp add: train_metrics_def)
  with ps(1,2) show "\<exists>ps. length ps = length train_iter
          \<and> progress_of (t_events stb) = progress_of (t_events st) @ ps
          \<and> train_metrics stb =
              Inr ((\<Sum>(p, k)\<leftarrow>zip ps (map (\<lambda>b. length (snd b)) train_iter). fst p * real k)
                     / real (samples train_iter),
                   (\<Sum>(p, k)\<leftarrow>zip ps (map (\<lambda>b. length (snd b)) train_iter). real k * snd p)
                     / real (samples train_iter))"
    by blast
next
  assume h: "samples data_iter \<noteq> 0 \<and> (dev \<noteq> None \<or> params net \<noteq> []) \<and> (use_ema \<longrightarrow> ema_model \<noteq> None)"
  let ?model = "(if use_ema then ema (the ema_model) else net)\<lparr>training := False\<rparr>"
  have l: "(\<Sum>b\<leftarrow>data_iter. real (length (snd b)) * batch_loss T w ?model b)
      = (\<Sum>b\<leftarrow>data_iter. batch_loss T w ?model b * real (length (snd b)))"
    by (simp add: mult.commute)
  from h show "evaluate_accuracy T w data_iter net dev use_ema ema_model =
        Inr ((\<Sum>b\<leftarrow>data_iter. real (length (snd b)) * batch_accuracy T w ?model b)
               / real (samples data_iter),
             (\<Sum>b\<leftarrow>data_iter. real (length (snd b)) * batch_loss T w ?model b)
               / real (samples data_iter))"
    unfolding weighted_accuracy_sum l
    by (auto simp: evaluate_accuracy_cases Let_def)
qed

text \<open>C9 on batches of sizes 8, 8, 8 and 6 with 8, 4, 2 and 3 right predictions.\<close>

theorem sample_weighted_metrics_witness:
  "evaluate_accuracy toy_torch 0 [toy_batch 8 8, toy_batch 8 4, toy_batch 8 2, toy_batch 6 3]
       toy_net (Some CPU) False None = Inr (17 / 30, 13 / 30)
   \<and> (\<exists>st1 l1 a1 l2 a2 l3 a3 l4 a4.
         epoch_batches toy_torch 4 0 toy_state [toy_batch 8 8, toy_batch 8 4, toy_batch 8 2, toy_batch 6 3]
           = Inr st1
       \<and> progress_of (t_events st1) = [(l1, a1), (l2, a2), (l3, a3), (l4, a4)]
       \<and> train_metrics st1 = Inr ((l1 * 8 + l2 * 8 + l3 * 8 + l4 * 6) / 30,
                                  (8 * a1 + 8 * a2 + 8 * a3 + 6 * a4) / 30))
   \<and> (\<exists>st'. train_batch toy_torch 4 4 0 toy_state (1, toy_batch 8 4) = Inr st'
       \<and> t_events st' = [Progress 0 1 (1 / 2) (1 / 2)]
       \<and> t_train_l_sum st' = 4 \<and> t_train_acc_sum st' = 4 \<and> t_n st' = 8)"
proof -
  let ?bs = "[toy_batch 8 8, toy_batch 8 4, toy_batch 8 2, toy_batch 6 3]"
  have ne: "\<forall>b\<in>set ?bs. snd b \<noteq> []" by (simp add: toy_batch_nonempty)
  have "\<exists>st1. epoch_batches toy_torch 4 0 toy_state ?bs = Inr st1 \<and> tracker_aligned st1
      \<and> shapes (t_net st1) = shapes (t_net toy_state) \<and> trainable (t_net st1)"
    by (rule epoch_batches_aligned [OF toy_state_aligned toy_state_trainable toy_scalar_ok _ ne])
       simp
  then obtain st1 where eb: "epoch_batches toy_torch 4 0 toy_state ?bs = Inr st1" by blast
  have "\<exists>st'. train_batch toy_torch 4 4 0 toy_state
      (1, fst (toy_batch 8 4), snd (toy_batch 8 4)) = Inr st' \<and> tracker_aligned st'
      \<and> shapes (t_net st') = shapes (t_net toy_state) \<and> trainable (t_net st')"
    by (rule train_batch_aligned [OF toy_state_aligned toy_state_trainable toy_scalar_ok])
       (simp_all add: toy_batch_nonempty)
  then obtain st' where tb': "train_batch toy_torch 4 4 0 toy_state
      (1, fst (toy_batch 8 4), snd (toy_batch 8 4)) = Inr st'"
    by blast
  then have tb: "train_batch toy_torch 4 4 0 toy_state (1, toy_batch 8 4) = Inr st'"
    by simp
  note inst = sample_weighted_metrics [where T = toy_torch and accum_steps = 4 and total_batches = 4
      and epoch = 0 and st = toy_state and i = 1 and X = "fst (toy_batch 8 4)"
      and y = "snd (toy_batch 8 4)" and st' = st' and train_iter = ?bs and stb = st1
      and data_iter = ?bs and dev = "Some CPU" and net = toy_net and use_ema = False
      and ema_model = None and w = 0]
  note inst1 = inst [THEN conjunct1, rule_format]
  note inst2 = inst [THEN conjunct2, THEN conjunct1, rule_format]
  note inst3 = inst [THEN conjunct2, THEN conjunct2, rule_format]
  have ev: "t_events toy_state = []" "t_train_l_sum toy_state = 0" "t_train_acc_sum toy_state = 0"
    "t_n toy_state = 0" "t_world toy_state = 0" "t_net toy_state = toy_net"
    by (simp_all add: toy_state_def)
  have a: "evaluate_accuracy toy_torch 0 ?bs toy_net (Some CPU) False None = Inr (17 / 30, 13 / 30)"
    using inst3
    by (simp add: samples_def batch_accuracy_def batch_loss_def toy_forward toy_loss
          toy_batch_size toy_batch_correct toy_batch_nonempty)
  have nb: "?bs \<noteq> []" by simp
  from inst2 [OF conjI [OF eb nb]] obtain ps where ps: "length ps = length ?bs"
      "progress_of (t_events st1) = progress_of (t_events toy_state) @ ps"
      "train_metrics st1 =
              Inr ((\<Sum>(p, k)\<leftarrow>zip ps (map (\<lambda>b. length (snd b)) ?bs). fst p * real k)
                     / real (samples ?bs),
                   (\<Sum>(p, k)\<leftarrow>zip ps (map (\<lambda>b. length (snd b)) ?bs). real k * snd p)
                     / real (samples ?bs))"
    by blast
  from ps(1) have "length ps = 4" by simp
  from list_of_length_4 [OF this] obtain p1 p2 p3 p4 where p: "ps = [p1, p2, p3, p4]" by blast
  have b: "progress_of (t_events st1) = [(fst p1, snd p1), (fst p2, snd p2), (fst p3, snd p3), (fst p4, snd p4)]
       \<and> train_metrics st1 = Inr ((fst p1 * 8 + fst p2 * 8 + fst p3 * 8 + fst p4 * 6) / 30,
                                  (8 * snd p1 + 8 * snd p2 + 8 * snd p3 + 6 * snd p4) / 30)"
    using ps(2,3) by (simp add: p ev samples_def toy_batch_size)
  have c: "t_events st' = [Progress 0 1 (1 / 2) (1 / 2)]
       \<and> t_train_l_sum st' = 4 \<and> t_train_acc_sum st' = 4 \<and> t_n st' = 8"
    using inst1 [OF tb']
    by (auto simp: ev step_due_def toy_forward toy_loss toy_batch_size toy_batch_correct)
  from a b c eb tb show ?thesis by blast
qed

subsection \<open>C10: the errors of evaluate\_accuracy\<close>

text \<open>
  C10, as stated, says that a call with \<^verbatim>\<open>use_ema\<close> false always succeeds. On a stream
  without samples it raises ZeroDivisionError.
\<close>

theorem evaluate_accuracy_live_counterexample:
  "evaluate_accuracy toy_torch 0 [] toy_net (Some CPU) False None = Inl ZeroDivisionError"
  by (simp add: evaluate_accuracy_def)

text \<open>
  C10, amended. \<^verbatim>\<open>evaluate_accuracy\<close> raises the ValueError if and only if \<^verbatim>\<open>use_ema\<close> is
  true and no EMA model is provided (and the device lookup has not failed before: a
  device is given or the network has a parameter). Every call with \<^verbatim>\<open>use_ema\<close> false on
  a stream that yields at least one sample, with a device given or a network that has a
  parameter, evaluates the live model and succeeds, whether or not an EMA model is
  provided. On a stream without samples every call raises.
\<close>

theorem evaluate_accuracy_error_conditions:
  "(evaluate_accuracy T w data_iter net dev use_ema ema_model = Inl ValueError
      \<longleftrightarrow> use_ema \<and> ema_model = None \<and> (dev \<noteq> None \<or> params net \<noteq> []))
   \<and> (\<not> use_ema \<and> samples data_iter \<noteq> 0 \<and> (dev \<noteq> None \<or> params net \<noteq> []) \<longrightarrow>
        evaluate_accuracy T w data_iter net dev use_ema ema_model =
          Inr ((\<Sum>b\<leftarrow>data_iter. real (num_correct (forward T w (net\<lparr>training := False\<rparr>) (fst b)) (snd b)))
                 / real (samples data_iter),
               (\<Sum>b\<leftarrow>data_iter. batch_loss T w (net\<lparr>training := False\<rparr>) b * real (length (snd b)))
                 / real (samples data_iter)))
   \<and> (samples data_iter = 0 \<longrightarrow>
        (\<exists>e. evaluate_accuracy T w data_iter net dev use_ema ema_model = Inl e))"
  by (auto simp: evaluate_accuracy_cases Let_def)

text \<open>The amended C10 on a stream of one batch: with and without an EMA model.\<close>

theorem evaluate_accuracy_error_conditions_witness:
  "evaluate_accuracy toy_torch 0 [toy_batch 2 1] toy_net None True None = Inl ValueError
   \<and> evaluate_accuracy toy_torch 0 [toy_batch 2 1] toy_net None False None = Inr (1 / 2, 1 / 2)
   \<and> evaluate_accuracy toy_torch 0 [toy_batch 2 1] toy_net None False (Some (t_ema toy_state))
        = Inr (1 / 2, 1 / 2)
   \<and> (\<exists>e. evaluate_accuracy toy_torch 0 [toy_batch 0 0] toy_net None True None = Inl e)"
  using evaluate_accuracy_error_conditions [of toy_torch 0 "[toy_batch 2 1]" toy_net None True None]
    evaluate_accuracy_error_conditions [of toy_torch 0 "[toy_batch 2 1]" toy_net None False None]
    evaluate_accuracy_error_conditions [of toy_torch 0 "[toy_batch 2 1]" toy_net None False
      "Some (t_ema toy_state)"]
    evaluate_accuracy_error_conditions [of toy_torch 0 "[toy_batch 0 0]" toy_net None True None]
  by (simp add: samples_def toy_net_def batch_loss_def toy_forward toy_loss
        toy_batch_size toy_batch_correct)

end
